theory Spec2Isabelle
  imports Complex_Main
begin

section \<open>Numbers and constants\<close>

text \<open>
  The engine computes on JavaScript numbers. They are modelled as \<^typ>\<open>real\<close>: the
  arithmetic of the source without rounding and without overflow. Every division of the
  source is guarded (\<open>Vec2.div\<close> tests \<open>s !== 0\<close>, the inverse mass tests \<open>mass > 0\<close>,
  the solver divides by \<open>totalInvMass || 1e-9\<close>) and every square root is taken of a sum
  of squares, so on reals no operation of the engine leaves the reals.
\<close>

definition pixelsPerMeter :: real where "pixelsPerMeter = 100"
definition GRAVITY_ACCEL :: real where "GRAVITY_ACCEL = 9.81"
definition GRAVITY :: real where "GRAVITY = GRAVITY_ACCEL * pixelsPerMeter"
definition TIME_STEP :: real where "TIME_STEP = 1 / 60"
definition FRICTION :: real where "FRICTION = 0.98"
definition RESTITUTION :: real where "RESTITUTION = 0.4"
definition MIN_VELOCITY_FOR_SLEEP :: real where "MIN_VELOCITY_FOR_SLEEP = 2.0"
definition SLEEP_DELAY_FRAMES :: real where "SLEEP_DELAY_FRAMES = 60"
definition LAUNCH_POWER :: real where "LAUNCH_POWER = 21"
definition BIRD_RADIUS :: real where "BIRD_RADIUS = 20"

section \<open>The vector class\<close>

text \<open>
  Vectors, entities and contacts are written over a number type \<open>'n\<close>, and the methods
  that only add, subtract and multiply are written for any such type. The engine is
  embedded on \<^typ>\<open>real\<close>; the last section of the definitions takes up the guards
  against \<open>NaN\<close> on numbers that have non-finite values.
\<close>

datatype 'n vec2 = Vec2 (vec_x: 'n) (vec_y: 'n)

definition zero :: "'n::zero vec2" where "zero = Vec2 0 0"

fun add :: "'n::plus vec2 \<Rightarrow> 'n vec2 \<Rightarrow> 'n vec2" where
  "add (Vec2 x y) (Vec2 x' y') = Vec2 (x + x') (y + y')"

fun sub :: "'n::minus vec2 \<Rightarrow> 'n vec2 \<Rightarrow> 'n vec2" where
  "sub (Vec2 x y) (Vec2 x' y') = Vec2 (x - x') (y - y')"

fun mul :: "'n::times vec2 \<Rightarrow> 'n \<Rightarrow> 'n vec2" where
  "mul (Vec2 x y) s = Vec2 (x * s) (y * s)"

text \<open>\<open>div\<close> returns the zero vector when the divisor is \<open>0\<close>.\<close>

fun div_vec :: "real vec2 \<Rightarrow> real \<Rightarrow> real vec2" where
  "div_vec (Vec2 x y) s = (if s \<noteq> 0 then Vec2 (x / s) (y / s) else Vec2 0 0)"

fun dot :: "'n::{plus,times} vec2 \<Rightarrow> 'n vec2 \<Rightarrow> 'n" where
  "dot (Vec2 x y) (Vec2 x' y') = x * x' + y * y'"

definition lenSq :: "'n::{plus,times} vec2 \<Rightarrow> 'n" where
  "lenSq v = dot v v"

definition len :: "real vec2 \<Rightarrow> real" where
  "len v = sqrt (lenSq v)"

definition normalize_vec :: "real vec2 \<Rightarrow> real vec2" where
  "normalize_vec v = (let l = len v in if l > 0 then div_vec v l else Vec2 0 0)"

section \<open>Entities\<close>

datatype shape = NoShape | Circle (radius: real) | AABB (width: real) (height: real)

text \<open>
  The fields of \<open>Entity\<close>. The constructor always stores a number in \<open>restitution\<close>;
  the solver still reads it through \<open>??\<close>, so the field is optional here and the
  solver's default is kept.
\<close>

record 'n entity =
  position :: "'n vec2"
  velocity :: "'n vec2"
  isStatic :: bool
  mass :: 'n
  restitution :: "'n option"
  collisionShape :: shape
  isSleeping :: bool
  sleepTimer :: 'n
  canSleep :: bool
  markedForRemoval :: bool
  hp :: 'n
  maxHp :: 'n
  damageThreshold :: 'n
  canCollideStatic :: bool

definition wake :: "('n::zero, 'a) entity_scheme \<Rightarrow> ('n, 'a) entity_scheme" where
  "wake e = e\<lparr>isSleeping := False, sleepTimer := 0\<rparr>"

definition destroy :: "('n, 'a) entity_scheme \<Rightarrow> ('n, 'a) entity_scheme" where
  "destroy e = e\<lparr>markedForRemoval := True\<rparr>"

definition takeDamage ::
  "real \<Rightarrow> (real, 'a) entity_scheme \<Rightarrow> (real, 'a) entity_scheme" where
  "takeDamage amount e =
     (if isStatic e then e
      else let e1 = e\<lparr>hp := hp e - amount\<rparr>
           in if hp e1 \<le> 0 then destroy e1 else e1)"

text \<open>
  \<open>onCollision(other, impulseMagnitude)\<close>. The base method does not read \<open>other\<close>;
  the overrides of \<open>Bird\<close> and \<open>Enemy\<close> call it and add nothing to the state.
\<close>

definition onCollision ::
  "real \<Rightarrow> (real, 'a) entity_scheme \<Rightarrow> (real, 'a) entity_scheme" where
  "onCollision impulseMagnitude e =
     (let e1 = wake e
      in if impulseMagnitude > damageThreshold e1
         then takeDamage (impulseMagnitude * 0.05) e1
         else e1)"

subsection \<open>Constructors\<close>

text \<open>The constructor of \<open>Entity\<close> with an empty \<open>options\<close> object.\<close>

definition newEntity :: "real \<Rightarrow> real \<Rightarrow> real entity" where
  "newEntity x y =
     \<lparr>position = Vec2 x y, velocity = zero, isStatic = False, mass = 1,
      restitution = Some 0.4, collisionShape = NoShape, isSleeping = False,
      sleepTimer = 0, canSleep = True, markedForRemoval = False, hp = 100,
      maxHp = 100, damageThreshold = 500, canCollideStatic = False\<rparr>"

definition ENEMY_RADIUS :: real where "ENEMY_RADIUS = 25"
definition BIRD_MASS :: real where "BIRD_MASS = 5"
definition ENEMY_MASS :: real where "ENEMY_MASS = 6"

definition newEnemy :: "real \<Rightarrow> real \<Rightarrow> real entity" where
  "newEnemy x y =
     (newEntity x y)\<lparr>mass := ENEMY_MASS, collisionShape := Circle ENEMY_RADIUS,
                     hp := 150, maxHp := 150, damageThreshold := 300, canSleep := True\<rparr>"

datatype block_type = Wood | Stone | Glass

fun BLOCK_HP :: "block_type \<Rightarrow> real" where
  "BLOCK_HP Wood = 100" | "BLOCK_HP Stone = 300" | "BLOCK_HP Glass = 50"

fun BLOCK_MASS :: "block_type \<Rightarrow> real" where
  "BLOCK_MASS Wood = 8" | "BLOCK_MASS Stone = 20" | "BLOCK_MASS Glass = 5"

fun BLOCK_RESTITUTION :: "block_type \<Rightarrow> real" where
  "BLOCK_RESTITUTION Wood = 0.3" | "BLOCK_RESTITUTION Stone = 0.2"
| "BLOCK_RESTITUTION Glass = 0.5"

fun BLOCK_DAMAGE_THRESHOLD :: "block_type \<Rightarrow> real" where
  "BLOCK_DAMAGE_THRESHOLD Wood = 200" | "BLOCK_DAMAGE_THRESHOLD Stone = 600"
| "BLOCK_DAMAGE_THRESHOLD Glass = 100"

text \<open>A block is given by its top-left corner; its position is the centre.\<close>

definition newBlock ::
  "real \<Rightarrow> real \<Rightarrow> real \<Rightarrow> real \<Rightarrow> block_type
     \<Rightarrow> bool \<Rightarrow> real entity" where
  "newBlock x y w h type static =
     (newEntity (x + w / 2) (y + h / 2))
       \<lparr>mass := (if static then 0 else BLOCK_MASS type), isStatic := static,
        collisionShape := AABB w h, hp := BLOCK_HP type, maxHp := BLOCK_HP type,
        restitution := Some (BLOCK_RESTITUTION type),
        damageThreshold := BLOCK_DAMAGE_THRESHOLD type, canSleep := (\<not> static)\<rparr>"

section \<open>Collision detection\<close>

text \<open>
  The world holds its entities in an array and a contact refers to two of them. A
  reference is modelled as the index of the entity in that array, so a contact carries
  the two indices \<open>ref_a\<close> and \<open>ref_b\<close> (the fields \<open>a\<close> and \<open>b\<close> of the source).
\<close>

record 'n contact =
  ref_a :: nat
  ref_b :: nat
  normal :: "'n vec2"
  penetration :: 'n

definition checkCircleCircle ::
  "nat \<Rightarrow> (real, 'a) entity_scheme \<Rightarrow> nat
     \<Rightarrow> (real, 'a) entity_scheme \<Rightarrow> real contact option" where
  "checkCircleCircle i a j b =
     (let r = radius (collisionShape a) + radius (collisionShape b);
          distVec = sub (position b) (position a);
          distSq = lenSq distVec
      in if distSq < r * r
         then let dist = sqrt distSq;
                  n = (if dist > 0 then div_vec distVec dist else Vec2 1 0);
                  pen = r - dist
              in Some \<lparr>ref_a = i, ref_b = j, normal = n, penetration = pen\<rparr>
         else None)"

definition checkAABBAABB ::
  "nat \<Rightarrow> (real, 'a) entity_scheme \<Rightarrow> nat
     \<Rightarrow> (real, 'a) entity_scheme \<Rightarrow> real contact option" where
  "checkAABBAABB i a j b =
     (let posA = position a; posB = position b;
          halfA_w = width (collisionShape a) / 2; halfA_h = height (collisionShape a) / 2;
          halfB_w = width (collisionShape b) / 2; halfB_h = height (collisionShape b) / 2;
          vec = sub posB posA;
          overlapX = (halfA_w + halfB_w) - \<bar>vec_x vec\<bar>;
          overlapY = (halfA_h + halfB_h) - \<bar>vec_y vec\<bar>
      in if overlapX > 0 \<and> overlapY > 0
         then (if overlapX < overlapY
               then Some \<lparr>ref_a = i, ref_b = j,
                          normal = Vec2 (if vec_x vec < 0 then -1 else 1) 0,
                          penetration = overlapX\<rparr>
               else Some \<lparr>ref_a = i, ref_b = j,
                          normal = Vec2 0 (if vec_y vec < 0 then -1 else 1),
                          penetration = overlapY\<rparr>)
         else None)"

definition checkCircleAABB ::
  "nat \<Rightarrow> (real, 'a) entity_scheme \<Rightarrow> nat
     \<Rightarrow> (real, 'a) entity_scheme \<Rightarrow> real contact option" where
  "checkCircleAABB i circle j aabb =
     (let circlePos = position circle; aabbPos = position aabb;
          halfW = width (collisionShape aabb) / 2;
          halfH = height (collisionShape aabb) / 2;
          r = radius (collisionShape circle);
          vec = sub circlePos aabbPos;
          closestX = max (- halfW) (min (vec_x vec) halfW);
          closestY = max (- halfH) (min (vec_y vec) halfH);
          closestPoint = Vec2 closestX closestY;
          delta = sub vec closestPoint;
          distSq = lenSq delta
      in if distSq < r * r
         then let dist = sqrt distSq;
                  n = (if dist > 0 then div_vec delta dist else normalize_vec vec);
                  pen = r - dist
              in Some \<lparr>ref_a = i, ref_b = j, normal = n, penetration = pen\<rparr>
         else None)"

text \<open>
  The dispatch on the two shape tags. In the box-circle case the operands are swapped,
  so the returned contact has the circle as \<open>a\<close>, and its normal is negated.
\<close>

definition checkCollision ::
  "nat \<Rightarrow> (real, 'a) entity_scheme \<Rightarrow> nat
     \<Rightarrow> (real, 'a) entity_scheme \<Rightarrow> real contact option" where
  "checkCollision i a j b =
     (case (collisionShape a, collisionShape b) of
        (Circle _, Circle _) \<Rightarrow> checkCircleCircle i a j b
      | (AABB _ _, AABB _ _) \<Rightarrow> checkAABBAABB i a j b
      | (Circle _, AABB _ _) \<Rightarrow> checkCircleAABB i a j b
      | (AABB _ _, Circle _) \<Rightarrow>
          (case checkCircleAABB j b i a of
             Some result \<Rightarrow> Some (result\<lparr>normal := mul (normal result) (-1)\<rparr>)
           | None \<Rightarrow> None)
      | _ \<Rightarrow> None)"

text \<open>
  \<open>detectCollisions\<close>. \<open>pairContacts\<close> is the body of the inner loop: it skips the
  pairs that are both static or both asleep. \<open>rowContacts\<close> is the body of the outer
  loop: it skips an entity that is static and not flagged \<open>canCollideStatic\<close>, and runs
  the inner loop over the later indices. Contacts are collected in loop order.
\<close>

definition pairContacts ::
  "(real, 'a) entity_scheme list \<Rightarrow> nat \<Rightarrow> nat
     \<Rightarrow> real contact list" where
  "pairContacts es i j =
     (let entityA = es ! i; entityB = es ! j
      in if (isStatic entityA \<and> isStatic entityB) \<or>
            (isSleeping entityA \<and> isSleeping entityB)
         then []
         else (case checkCollision i entityA j entityB of
                 Some collisionInfo \<Rightarrow> [collisionInfo]
               | None \<Rightarrow> []))"

definition rowContacts ::
  "(real, 'a) entity_scheme list \<Rightarrow> nat \<Rightarrow> real contact list" where
  "rowContacts es i =
     (let entityA = es ! i
      in if isStatic entityA \<and> \<not> canCollideStatic entityA then []
         else concat (map (pairContacts es i) [i + 1 ..< length es]))"

definition detectCollisions :: "(real, 'a) entity_scheme list \<Rightarrow> real contact list" where
  "detectCollisions es = concat (map (rowContacts es) [0 ..< length es])"

section \<open>The stepper\<close>

definition applyForces1 ::
  "real \<Rightarrow> (real, 'a) entity_scheme \<Rightarrow> (real, 'a) entity_scheme" where
  "applyForces1 dt e =
     (if isStatic e \<or> isSleeping e then e
      else let e1 = (if mass e > 0
                     then e\<lparr>velocity := add (velocity e) (Vec2 0 (GRAVITY * dt))\<rparr>
                     else e)
           in e1\<lparr>velocity := mul (velocity e1) FRICTION\<rparr>)"

definition applyForces ::
  "real \<Rightarrow> (real, 'a) entity_scheme list \<Rightarrow> (real, 'a) entity_scheme list" where
  "applyForces dt es = map (applyForces1 dt) es"

text \<open>
  \<open>integrate\<close>, for any number type. After the position update the source tests the
  four components with \<open>isNaN\<close> and only writes a warning to the console; it changes
  no field, so the branch has no counterpart here.
\<close>

definition integrate1 ::
  "'n \<Rightarrow> ('n::{plus,times}, 'a) entity_scheme \<Rightarrow> ('n, 'a) entity_scheme" where
  "integrate1 dt e =
     (if isStatic e \<or> isSleeping e then e
      else e\<lparr>position := add (position e) (mul (velocity e) dt)\<rparr>)"

definition integrate ::
  "'n \<Rightarrow> ('n::{plus,times}, 'a) entity_scheme list
     \<Rightarrow> ('n, 'a) entity_scheme list" where
  "integrate dt es = map (integrate1 dt) es"

subsection \<open>The impulse solver\<close>

text \<open>
  One iteration of the loop of \<open>resolveCollisions\<close>, in the source's order: wake the two
  entities, inverse masses, positional correction, relative velocity, impulse, the two
  collision callbacks. The entities are read and written through their indices, one
  assignment after the other, so a contact whose two references are the same entity is
  treated as the source treats it. The two \<open>continue\<close> statements are the two early
  results. The reverts after an \<open>isNaN\<close> test never fire on reals and are left out; they
  are the subject of the section on non-finite numbers.
\<close>

definition invMass :: "(real, 'a) entity_scheme \<Rightarrow> real" where
  "invMass e = (if mass e > 0 then 1 / mass e else 0)"

text \<open>The operator \<open>||\<close> on numbers: the left operand unless it is \<open>0\<close>.\<close>

definition orElse :: "real \<Rightarrow> real \<Rightarrow> real" where
  "orElse v d = (if v \<noteq> 0 then v else d)"

definition wakeBoth ::
  "'n contact \<Rightarrow> ('n::zero, 'a) entity_scheme list
     \<Rightarrow> ('n, 'a) entity_scheme list" where
  "wakeBoth c es =
     (let es1 = (if isSleeping (es ! ref_a c) then es[ref_a c := wake (es ! ref_a c)] else es)
      in if isSleeping (es1 ! ref_b c) then es1[ref_b c := wake (es1 ! ref_b c)] else es1)"

text \<open>The two guarded assignments to the positions, for any number type.\<close>

definition applyCorrection ::
  "'n contact \<Rightarrow> 'n \<Rightarrow> 'n \<Rightarrow> 'n vec2 \<Rightarrow> ('n::{plus,minus,times}, 'a) entity_scheme list
     \<Rightarrow> ('n, 'a) entity_scheme list" where
  "applyCorrection c invMassA invMassB correction es =
     (let es1 = (if \<not> isStatic (es ! ref_a c)
                 then es[ref_a c := (es ! ref_a c)
                        \<lparr>position := sub (position (es ! ref_a c)) (mul correction invMassA)\<rparr>]
                 else es)
      in if \<not> isStatic (es1 ! ref_b c)
         then es1[ref_b c := (es1 ! ref_b c)
                 \<lparr>position := add (position (es1 ! ref_b c)) (mul correction invMassB)\<rparr>]
         else es1)"

definition positionalCorrection ::
  "real contact \<Rightarrow> real \<Rightarrow> real \<Rightarrow> (real, 'a) entity_scheme list
     \<Rightarrow> (real, 'a) entity_scheme list" where
  "positionalCorrection c invMassA invMassB es =
     (let totalInvMass = invMassA + invMassB;
          penetrationSlop = 0.1;
          correctionPercent = 0.8;
          correctionMagnitude =
            (max (penetration c - penetrationSlop) 0 / orElse totalInvMass (1 / 10 ^ 9))
              * correctionPercent;
          correction = mul (normal c) correctionMagnitude
      in applyCorrection c invMassA invMassB correction es)"

text \<open>The two guarded assignments to the velocities, for any number type.\<close>

definition applyImpulse ::
  "'n contact \<Rightarrow> 'n \<Rightarrow> 'n \<Rightarrow> 'n vec2 \<Rightarrow> ('n::{plus,minus,times}, 'a) entity_scheme list
     \<Rightarrow> ('n, 'a) entity_scheme list" where
  "applyImpulse c invMassA invMassB impulseVec es =
     (let es1 = (if \<not> isStatic (es ! ref_a c)
                 then es[ref_a c := (es ! ref_a c)
                        \<lparr>velocity := sub (velocity (es ! ref_a c)) (mul impulseVec invMassA)\<rparr>]
                 else es)
      in if \<not> isStatic (es1 ! ref_b c)
         then es1[ref_b c := (es1 ! ref_b c)
                 \<lparr>velocity := add (velocity (es1 ! ref_b c)) (mul impulseVec invMassB)\<rparr>]
         else es1)"

definition notify ::
  "real contact \<Rightarrow> real \<Rightarrow> (real, 'a) entity_scheme list
     \<Rightarrow> (real, 'a) entity_scheme list" where
  "notify c impulseMagnitude es =
     (let es1 = es[ref_a c := onCollision impulseMagnitude (es ! ref_a c)]
      in es1[ref_b c := onCollision impulseMagnitude (es1 ! ref_b c)])"

definition resolveCollision ::
  "real contact \<Rightarrow> (real, 'a) entity_scheme list
     \<Rightarrow> (real, 'a) entity_scheme list" where
  "resolveCollision c es =
     (let es1 = wakeBoth c es;
          invMassA = invMass (es1 ! ref_a c);
          invMassB = invMass (es1 ! ref_b c);
          totalInvMass = invMassA + invMassB
      in if totalInvMass = 0 then es1
         else
           let es2 = positionalCorrection c invMassA invMassB es1;
               rv = sub (velocity (es2 ! ref_b c)) (velocity (es2 ! ref_a c));
               velAlongNormal = dot rv (normal c)
           in if velAlongNormal > 0 then es2
              else
                let e = min (case restitution (es2 ! ref_a c) of
                               Some r \<Rightarrow> r | None \<Rightarrow> RESTITUTION)
                            (case restitution (es2 ! ref_b c) of
                               Some r \<Rightarrow> r | None \<Rightarrow> RESTITUTION);
                    j = (- (1 + e) * velAlongNormal) / orElse totalInvMass (1 / 10 ^ 9);
                    impulseVec = mul (normal c) j;
                    es3 = applyImpulse c invMassA invMassB impulseVec es2;
                    impulseMagnitude = len impulseVec
                in notify c impulseMagnitude es3)"

definition resolveCollisions ::
  "real contact list \<Rightarrow> (real, 'a) entity_scheme list
     \<Rightarrow> (real, 'a) entity_scheme list" where
  "resolveCollisions cs es = fold resolveCollision cs es"

definition updateSleepState1 ::
  "real \<Rightarrow> (real, 'a) entity_scheme \<Rightarrow> (real, 'a) entity_scheme" where
  "updateSleepState1 dt e =
     (if isStatic e \<or> \<not> canSleep e then e
      else let speedSq = lenSq (velocity e)
           in if speedSq < MIN_VELOCITY_FOR_SLEEP * MIN_VELOCITY_FOR_SLEEP
              then let e1 = e\<lparr>sleepTimer := sleepTimer e + dt\<rparr>
                   in if sleepTimer e1 \<ge> SLEEP_DELAY_FRAMES * TIME_STEP
                      then e1\<lparr>isSleeping := True, velocity := zero\<rparr>
                      else e1
              else wake e)"

definition updateSleepState ::
  "real \<Rightarrow> (real, 'a) entity_scheme list \<Rightarrow> (real, 'a) entity_scheme list" where
  "updateSleepState dt es = map (updateSleepState1 dt) es"

text \<open>One collision sub-step: detect, then resolve what was detected.\<close>

definition subStep ::
  "(real, 'a) entity_scheme list \<Rightarrow> (real, 'a) entity_scheme list" where
  "subStep es = resolveCollisions (detectCollisions es) es"

definition subSteps :: nat where "subSteps = 8"

text \<open>\<open>PhysicsWorld.update\<close>: one tick.\<close>

definition update ::
  "real \<Rightarrow> (real, 'a) entity_scheme list \<Rightarrow> (real, 'a) entity_scheme list" where
  "update dt es =
     updateSleepState dt ((subStep ^^ subSteps) (integrate dt (applyForces dt es)))"

section \<open>The trajectory predictor\<close>

text \<open>
  The body of the loop of \<open>simulateTrajectory\<close> up to the integration: gravity, damping,
  position. It maps the pair \<open>(currentPos, currentVel)\<close> to its next value.
\<close>

definition trajStep ::
  "real vec2 \<times> real vec2 \<Rightarrow> real vec2 \<times> real vec2" where
  "trajStep = (\<lambda>(currentPos, currentVel).
     let dt = TIME_STEP;
         gravityForce = Vec2 0 (GRAVITY * dt);
         vel1 = add currentVel gravityForce;
         vel2 = mul vel1 FRICTION;
         pos1 = add currentPos (mul vel2 dt)
     in (pos1, vel2))"

text \<open>
  The loop itself, with the canvas size as parameters: a point is recorded when the
  counter is a multiple of three, the loop stops below the ground line (recording the
  crossing) and outside the horizontal bounds. The function returns the variables of
  the loop as they are when it ends: the counter \<open>i\<close>, \<open>currentPos\<close>, \<open>currentVel\<close>
  and \<open>pts\<close>. After a \<open>break\<close> the counter is the index of the iteration that broke.
\<close>

function simLoop ::
  "real \<Rightarrow> real \<Rightarrow> nat \<Rightarrow> nat \<Rightarrow> real vec2 \<Rightarrow> real vec2 \<Rightarrow> real vec2 list
     \<Rightarrow> nat \<times> real vec2 \<times> real vec2 \<times> real vec2 list" where
  "simLoop canvasWidth canvasHeight steps i currentPos currentVel pts =
     (if i < steps
      then let groundY = canvasHeight - 50;
               (pos1, vel1) = trajStep (currentPos, currentVel);
               pts1 = (if i mod 3 = 0 then pts @ [Vec2 (vec_x pos1) (vec_y pos1)] else pts)
           in if vec_y pos1 > groundY
              then (i, pos1, vel1,
                    if length pts1 = 0 \<or> vec_y (last pts1) < groundY
                    then pts1 @ [Vec2 (vec_x pos1) groundY]
                    else pts1)
              else if vec_x pos1 < - 100 \<or> vec_x pos1 > canvasWidth + 100
                   then (i, pos1, vel1, pts1)
                   else simLoop canvasWidth canvasHeight steps (i + 1) pos1 vel1 pts1
      else (i, currentPos, currentVel, pts))"
  by pat_completeness auto
termination
  by (relation "measure (\<lambda>(w, h, steps, i, p, v, pts). steps - i)") auto

declare simLoop.simps [simp del]

text \<open>\<open>simulateTrajectory\<close> returns the recorded points.\<close>

definition simulateTrajectory ::
  "real \<Rightarrow> real \<Rightarrow> real vec2 \<Rightarrow> real vec2 \<Rightarrow> nat
     \<Rightarrow> real vec2 list" where
  "simulateTrajectory canvasWidth canvasHeight startPos startVel steps =
     (case simLoop canvasWidth canvasHeight steps 0 startPos startVel
             [Vec2 (vec_x startPos) (vec_y startPos)]
      of (i, currentPos, currentVel, pts) \<Rightarrow> pts)"

text \<open>
  The simulated point when the loop ends, and the number of iterations that have run
  by then: one more than the counter after a \<open>break\<close>, the counter otherwise.
\<close>

definition simulatedPoint ::
  "real \<Rightarrow> real \<Rightarrow> real vec2 \<Rightarrow> real vec2 \<Rightarrow> nat
     \<Rightarrow> real vec2" where
  "simulatedPoint canvasWidth canvasHeight startPos startVel steps =
     (case simLoop canvasWidth canvasHeight steps 0 startPos startVel
             [Vec2 (vec_x startPos) (vec_y startPos)]
      of (i, currentPos, currentVel, pts) \<Rightarrow> currentPos)"

definition simulatedSteps ::
  "real \<Rightarrow> real \<Rightarrow> real vec2 \<Rightarrow> real vec2 \<Rightarrow> nat
     \<Rightarrow> nat" where
  "simulatedSteps canvasWidth canvasHeight startPos startVel steps =
     (case simLoop canvasWidth canvasHeight steps 0 startPos startVel
             [Vec2 (vec_x startPos) (vec_y startPos)]
      of (i, currentPos, currentVel, pts) \<Rightarrow> if i < steps then i + 1 else i)"

section \<open>Birds and the slingshot\<close>

datatype bird_state = Idle | Aiming | Flying | Landed

record bird = "real entity" +
  state :: bird_state
  lifespan :: real
  landedTimer :: real

definition newBird :: "real \<Rightarrow> real \<Rightarrow> bird" where
  "newBird x y =
     \<lparr>position = Vec2 x y, velocity = zero, isStatic = False, mass = BIRD_MASS,
      restitution = Some 0.4, collisionShape = Circle BIRD_RADIUS, isSleeping = False,
      sleepTimer = 0, canSleep = True, markedForRemoval = False, hp = 50,
      maxHp = 50, damageThreshold = 100, canCollideStatic = False,
      state = Idle, lifespan = 5, landedTimer = 0\<rparr>"

definition launch :: "real vec2 \<Rightarrow> 'a bird_scheme \<Rightarrow> 'a bird_scheme" where
  "launch forceVector b =
     (if state b = Aiming
      then let FIRST_STEP_BOOST = 1 / FRICTION
           in wake (b\<lparr>velocity := mul forceVector (LAUNCH_POWER * FIRST_STEP_BOOST),
                      state := Flying\<rparr>)
      else b)"

text \<open>
  The slingshot refers to the bird it holds; the bird is an entity of the world as well.
  As for contacts, the reference is the index of the bird in the array of entities, and
  the methods that write to the bird take that array and return it.
\<close>

record slingshot =
  slingPosition :: "real vec2"
  anchorOffsetBack :: "real vec2"
  anchorOffsetFront :: "real vec2"
  elasticLength :: real
  elasticity :: real
  aimingBird :: "nat option"
  dragStartPos :: "real vec2 option"
  dragCurrentPos :: "real vec2 option"

definition newSlingshot :: "real \<Rightarrow> real \<Rightarrow> slingshot" where
  "newSlingshot x y =
     \<lparr>slingPosition = Vec2 x y, anchorOffsetBack = Vec2 (-10) 5,
      anchorOffsetFront = Vec2 10 5, elasticLength = 80, elasticity = 0.1,
      aimingBird = None, dragStartPos = None, dragCurrentPos = None\<rparr>"

definition anchorFrontPos :: "slingshot \<Rightarrow> real vec2" where
  "anchorFrontPos s = add (slingPosition s) (anchorOffsetFront s)"

definition getLaunchOrigin :: "slingshot \<Rightarrow> real vec2" where
  "getLaunchOrigin s = add (anchorFrontPos s) (Vec2 0 (- BIRD_RADIUS))"

definition attachBird ::
  "nat \<Rightarrow> slingshot \<times> 'a bird_scheme list
     \<Rightarrow> slingshot \<times> 'a bird_scheme list" where
  "attachBird b = (\<lambda>(s, es).
     if aimingBird s = None
     then (s\<lparr>aimingBird := Some b\<rparr>,
           es[b := wake ((es ! b)\<lparr>state := Aiming,
                                  position := add (anchorFrontPos s) (Vec2 0 (- BIRD_RADIUS)),
                                  velocity := zero\<rparr>)])
     else (s, es))"

definition startAim ::
  "real vec2 \<Rightarrow> slingshot \<times> 'a bird_scheme list
     \<Rightarrow> bool \<times> slingshot \<times> 'a bird_scheme list" where
  "startAim pointerPos = (\<lambda>(s, es).
     case aimingBird s of
       Some b \<Rightarrow>
         let birdPos = position (es ! b);
             distSq = lenSq (sub pointerPos birdPos)
         in if distSq < (radius (collisionShape (es ! b)) * 1.5) ^ 2
            then (True, s\<lparr>dragStartPos := Some pointerPos, dragCurrentPos := Some pointerPos\<rparr>, es)
            else (False, s, es)
     | None \<Rightarrow> (False, s, es))"

definition updateAim ::
  "real vec2 \<Rightarrow> slingshot \<times> 'a bird_scheme list
     \<Rightarrow> slingshot \<times> 'a bird_scheme list" where
  "updateAim pointerPos = (\<lambda>(s, es).
     case (aimingBird s, dragStartPos s) of
       (Some b, Some start) \<Rightarrow>
         let s1 = s\<lparr>dragCurrentPos := Some pointerPos\<rparr>;
             dragVector = sub pointerPos start;
             targetPos = add (add (anchorFrontPos s1) (Vec2 0 (- BIRD_RADIUS))) dragVector;
             fromAnchor = sub targetPos (anchorFrontPos s1);
             dist = len fromAnchor;
             targetPos1 = (if dist > elasticLength s1
                           then add (anchorFrontPos s1)
                                    (mul (normalize_vec fromAnchor) (elasticLength s1))
                           else targetPos)
         in (s1, es[b := (es ! b)\<lparr>position := targetPos1\<rparr>])
     | _ \<Rightarrow> (s, es))"

definition getLaunchVelocity ::
  "slingshot \<times> 'a bird_scheme list \<Rightarrow> real vec2" where
  "getLaunchVelocity = (\<lambda>(s, es).
     case (aimingBird s, dragStartPos s) of
       (Some b, Some start) \<Rightarrow> sub (anchorFrontPos s) (position (es ! b))
     | _ \<Rightarrow> zero)"

text \<open>
  \<open>endAim\<close> returns whether a launch occurred. Both exits clear the three fields of the
  aim.
\<close>

definition endAim ::
  "slingshot \<times> 'a bird_scheme list
     \<Rightarrow> bool \<times> slingshot \<times> 'a bird_scheme list" where
  "endAim = (\<lambda>(s, es).
     let cleared = s\<lparr>aimingBird := None, dragStartPos := None, dragCurrentPos := None\<rparr>
     in case (aimingBird s, dragStartPos s) of
          (Some b, Some start) \<Rightarrow>
            let launchVelocity = getLaunchVelocity (s, es)
            in if lenSq launchVelocity > 0
               then (True, cleared, es[b := launch launchVelocity (es ! b)])
               else (False, cleared, es)
        | _ \<Rightarrow> (False, cleared, es))"

section \<open>Numbers with non-finite values\<close>

text \<open>
  A JavaScript number is a finite value, one of the two infinities, or \<open>NaN\<close>. This type
  keeps the non-finite values and their IEEE 754 arithmetic and leaves out what the
  guards of the engine do not depend on: finite results are exact (no rounding, no
  overflow to an infinity) and zero has no sign.
\<close>

datatype jsnum = Fin real | PInf | NInf | NaN

fun positive :: "jsnum \<Rightarrow> bool" where
  "positive (Fin a) = (a > 0)"
| "positive PInf = True"
| "positive NInf = False"
| "positive NaN = False"

instantiation jsnum :: "{zero, one, plus, uminus, minus, times, inverse}"
begin

definition zero_jsnum :: jsnum where "zero_jsnum = Fin 0"

definition one_jsnum :: jsnum where "one_jsnum = Fin 1"

fun plus_jsnum :: "jsnum \<Rightarrow> jsnum \<Rightarrow> jsnum" where
  "plus_jsnum NaN y = NaN"
| "plus_jsnum x NaN = NaN"
| "plus_jsnum (Fin a) (Fin b) = Fin (a + b)"
| "plus_jsnum PInf NInf = NaN"
| "plus_jsnum NInf PInf = NaN"
| "plus_jsnum PInf y = PInf"
| "plus_jsnum NInf y = NInf"
| "plus_jsnum (Fin a) y = y"

fun uminus_jsnum :: "jsnum \<Rightarrow> jsnum" where
  "uminus_jsnum (Fin a) = Fin (- a)"
| "uminus_jsnum PInf = NInf"
| "uminus_jsnum NInf = PInf"
| "uminus_jsnum NaN = NaN"

definition minus_jsnum :: "jsnum \<Rightarrow> jsnum \<Rightarrow> jsnum" where
  "minus_jsnum x y = x + (- y)"

fun times_jsnum :: "jsnum \<Rightarrow> jsnum \<Rightarrow> jsnum" where
  "times_jsnum NaN y = NaN"
| "times_jsnum x NaN = NaN"
| "times_jsnum (Fin a) (Fin b) = Fin (a * b)"
| "times_jsnum x y =
     (if x = Fin 0 \<or> y = Fin 0 then NaN
      else if positive x = positive y then PInf else NInf)"

fun divide_jsnum :: "jsnum \<Rightarrow> jsnum \<Rightarrow> jsnum" where
  "divide_jsnum NaN y = NaN"
| "divide_jsnum x NaN = NaN"
| "divide_jsnum (Fin a) (Fin b) =
     (if b \<noteq> 0 then Fin (a / b)
      else if a = 0 then NaN else if a > 0 then PInf else NInf)"
| "divide_jsnum (Fin a) y = Fin 0"
| "divide_jsnum x (Fin b) = (if positive x = (b \<ge> 0) then PInf else NInf)"
| "divide_jsnum x y = NaN"

definition inverse_jsnum :: "jsnum \<Rightarrow> jsnum" where
  "inverse_jsnum x = divide (Fin 1) x"

instance ..

end

text \<open>The comparison \<open><\<close>; with \<open>NaN\<close> on either side it is false.\<close>

fun jsLess :: "jsnum \<Rightarrow> jsnum \<Rightarrow> bool" where
  "jsLess NaN y = False"
| "jsLess x NaN = False"
| "jsLess (Fin a) (Fin b) = (a < b)"
| "jsLess x PInf = (x \<noteq> PInf)"
| "jsLess NInf y = (y \<noteq> NInf)"
| "jsLess x y = False"

definition jsLessEq :: "jsnum \<Rightarrow> jsnum \<Rightarrow> bool" where
  "jsLessEq x y = (x \<noteq> NaN \<and> y \<noteq> NaN \<and> (x = y \<or> jsLess x y))"

definition isNaN :: "jsnum \<Rightarrow> bool" where
  "isNaN x = (x = NaN)"

text \<open>\<open>Math.max\<close>, \<open>Math.min\<close> and \<open>Math.sqrt\<close>.\<close>

definition jsMax :: "jsnum \<Rightarrow> jsnum \<Rightarrow> jsnum" where
  "jsMax x y = (if isNaN x \<or> isNaN y then NaN else if jsLess x y then y else x)"

definition jsMin :: "jsnum \<Rightarrow> jsnum \<Rightarrow> jsnum" where
  "jsMin x y = (if isNaN x \<or> isNaN y then NaN else if jsLess y x then y else x)"

fun jsSqrt :: "jsnum \<Rightarrow> jsnum" where
  "jsSqrt (Fin a) = (if a < 0 then NaN else Fin (sqrt a))"
| "jsSqrt PInf = PInf"
| "jsSqrt NInf = NaN"
| "jsSqrt NaN = NaN"

text \<open>The operator \<open>||\<close> on numbers: \<open>0\<close> and \<open>NaN\<close> are the falsy ones.\<close>

definition orElseJS :: "jsnum \<Rightarrow> jsnum \<Rightarrow> jsnum" where
  "orElseJS v d = (if v = Fin 0 \<or> isNaN v then d else v)"

text \<open>The test \<open>isNaN(v.x) || isNaN(v.y)\<close> of the guards.\<close>

definition hasNaN :: "jsnum vec2 \<Rightarrow> bool" where
  "hasNaN v = (isNaN (vec_x v) \<or> isNaN (vec_y v))"

definition lenJS :: "jsnum vec2 \<Rightarrow> jsnum" where
  "lenJS v = jsSqrt (lenSq v)"

subsection \<open>The solver with its guards\<close>

definition invMassJS :: "(jsnum, 'a) entity_scheme \<Rightarrow> jsnum" where
  "invMassJS e = (if jsLess 0 (mass e) then 1 / mass e else 0)"

definition takeDamageJS ::
  "jsnum \<Rightarrow> (jsnum, 'a) entity_scheme \<Rightarrow> (jsnum, 'a) entity_scheme" where
  "takeDamageJS amount e =
     (if isStatic e then e
      else let e1 = e\<lparr>hp := hp e - amount\<rparr>
           in if jsLessEq (hp e1) 0 then destroy e1 else e1)"

definition onCollisionJS ::
  "jsnum \<Rightarrow> (jsnum, 'a) entity_scheme \<Rightarrow> (jsnum, 'a) entity_scheme" where
  "onCollisionJS impulseMagnitude e =
     (let e1 = wake e
      in if jsLess (damageThreshold e1) impulseMagnitude
         then takeDamageJS (impulseMagnitude * Fin 0.05) e1
         else e1)"

definition notifyJS ::
  "jsnum contact \<Rightarrow> jsnum \<Rightarrow> (jsnum, 'a) entity_scheme list
     \<Rightarrow> (jsnum, 'a) entity_scheme list" where
  "notifyJS c impulseMagnitude es =
     (let es1 = es[ref_a c := onCollisionJS impulseMagnitude (es ! ref_a c)]
      in es1[ref_b c := onCollisionJS impulseMagnitude (es1 ! ref_b c)])"

text \<open>
  The guards. After the positional correction, and again after the impulse, the source
  tests the two components of the field of \<open>a\<close>, then of \<open>b\<close>, with \<open>isNaN\<close>, and
  assigns the value saved before the update when one of them is \<open>NaN\<close>.
\<close>

definition revertPosition ::
  "nat \<Rightarrow> jsnum vec2 \<Rightarrow> (jsnum, 'a) entity_scheme list
     \<Rightarrow> (jsnum, 'a) entity_scheme list" where
  "revertPosition i oldPos es =
     (if hasNaN (position (es ! i)) then es[i := (es ! i)\<lparr>position := oldPos\<rparr>] else es)"

definition revertVelocity ::
  "nat \<Rightarrow> jsnum vec2 \<Rightarrow> (jsnum, 'a) entity_scheme list
     \<Rightarrow> (jsnum, 'a) entity_scheme list" where
  "revertVelocity i oldVel es =
     (if hasNaN (velocity (es ! i)) then es[i := (es ! i)\<lparr>velocity := oldVel\<rparr>] else es)"

definition resolveCollisionJS ::
  "jsnum contact \<Rightarrow> (jsnum, 'a) entity_scheme list
     \<Rightarrow> (jsnum, 'a) entity_scheme list" where
  "resolveCollisionJS c es =
     (let es1 = wakeBoth c es;
          invMassA = invMassJS (es1 ! ref_a c);
          invMassB = invMassJS (es1 ! ref_b c);
          totalInvMass = invMassA + invMassB
      in if totalInvMass = Fin 0 then es1
         else
           let penetrationSlop = Fin 0.1;
               correctionPercent = Fin 0.8;
               correctionMagnitude =
                 (jsMax (penetration c - penetrationSlop) 0
                    / orElseJS totalInvMass (Fin (1 / 10 ^ 9))) * correctionPercent;
               correction = mul (normal c) correctionMagnitude;
               oldPosA = position (es1 ! ref_a c);
               oldPosB = position (es1 ! ref_b c);
               es2 = applyCorrection c invMassA invMassB correction es1;
               es3 = revertPosition (ref_a c) oldPosA es2;
               es4 = revertPosition (ref_b c) oldPosB es3;
               rv = sub (velocity (es4 ! ref_b c)) (velocity (es4 ! ref_a c));
               velAlongNormal = dot rv (normal c)
           in if jsLess 0 velAlongNormal then es4
              else
                let e = jsMin (case restitution (es4 ! ref_a c) of
                                 Some r \<Rightarrow> r | None \<Rightarrow> Fin RESTITUTION)
                              (case restitution (es4 ! ref_b c) of
                                 Some r \<Rightarrow> r | None \<Rightarrow> Fin RESTITUTION);
                    j = (- (1 + e) * velAlongNormal) / orElseJS totalInvMass (Fin (1 / 10 ^ 9));
                    impulseVec = mul (normal c) j;
                    oldVelA = velocity (es4 ! ref_a c);
                    oldVelB = velocity (es4 ! ref_b c);
                    es5 = applyImpulse c invMassA invMassB impulseVec es4;
                    es6 = revertVelocity (ref_a c) oldVelA es5;
                    es7 = revertVelocity (ref_b c) oldVelB es6;
                    impulseMagnitude = lenJS impulseVec
                in notifyJS c impulseMagnitude es7)"

definition resolveCollisionsJS ::
  "jsnum contact list \<Rightarrow> (jsnum, 'a) entity_scheme list
     \<Rightarrow> (jsnum, 'a) entity_scheme list" where
  "resolveCollisionsJS cs es = fold resolveCollisionJS cs es"

text \<open>
  The values that one iteration of the solver computes on the way, each with the
  statements of \<open>resolveCollisionJS\<close> up to that point: the total inverse mass, the
  entities right after the two assignments of the positional correction, the entities
  after the two position guards, the relative velocity along the normal, and the
  entities right after the two assignments of the impulse.
\<close>

definition totalInvMassJS :: "jsnum contact \<Rightarrow> (jsnum, 'a) entity_scheme list \<Rightarrow> jsnum" where
  "totalInvMassJS c es =
     (let es1 = wakeBoth c es;
          invMassA = invMassJS (es1 ! ref_a c);
          invMassB = invMassJS (es1 ! ref_b c)
      in invMassA + invMassB)"

definition afterCorrectionJS ::
  "jsnum contact \<Rightarrow> (jsnum, 'a) entity_scheme list \<Rightarrow> (jsnum, 'a) entity_scheme list" where
  "afterCorrectionJS c es =
     (let es1 = wakeBoth c es;
          invMassA = invMassJS (es1 ! ref_a c);
          invMassB = invMassJS (es1 ! ref_b c);
          totalInvMass = invMassA + invMassB;
          penetrationSlop = Fin 0.1;
          correctionPercent = Fin 0.8;
          correctionMagnitude =
            (jsMax (penetration c - penetrationSlop) 0
               / orElseJS totalInvMass (Fin (1 / 10 ^ 9))) * correctionPercent;
          correction = mul (normal c) correctionMagnitude
      in applyCorrection c invMassA invMassB correction es1)"

definition afterPositionGuardsJS ::
  "jsnum contact \<Rightarrow> (jsnum, 'a) entity_scheme list \<Rightarrow> (jsnum, 'a) entity_scheme list" where
  "afterPositionGuardsJS c es =
     (let es1 = wakeBoth c es;
          oldPosA = position (es1 ! ref_a c);
          oldPosB = position (es1 ! ref_b c);
          es2 = afterCorrectionJS c es;
          es3 = revertPosition (ref_a c) oldPosA es2
      in revertPosition (ref_b c) oldPosB es3)"

definition velAlongNormalJS :: "jsnum contact \<Rightarrow> (jsnum, 'a) entity_scheme list \<Rightarrow> jsnum" where
  "velAlongNormalJS c es =
     (let es4 = afterPositionGuardsJS c es;
          rv = sub (velocity (es4 ! ref_b c)) (velocity (es4 ! ref_a c))
      in dot rv (normal c))"

definition impulseVecJS :: "jsnum contact \<Rightarrow> (jsnum, 'a) entity_scheme list \<Rightarrow> jsnum vec2" where
  "impulseVecJS c es =
     (let es4 = afterPositionGuardsJS c es;
          e = jsMin (case restitution (es4 ! ref_a c) of
                       Some r \<Rightarrow> r | None \<Rightarrow> Fin RESTITUTION)
                    (case restitution (es4 ! ref_b c) of
                       Some r \<Rightarrow> r | None \<Rightarrow> Fin RESTITUTION);
          j = (- (1 + e) * velAlongNormalJS c es)
                / orElseJS (totalInvMassJS c es) (Fin (1 / 10 ^ 9))
      in mul (normal c) j)"

definition afterImpulseJS ::
  "jsnum contact \<Rightarrow> (jsnum, 'a) entity_scheme list \<Rightarrow> (jsnum, 'a) entity_scheme list" where
  "afterImpulseJS c es =
     (let es1 = wakeBoth c es;
          invMassA = invMassJS (es1 ! ref_a c);
          invMassB = invMassJS (es1 ! ref_b c)
      in applyImpulse c invMassA invMassB (impulseVecJS c es) (afterPositionGuardsJS c es))"

definition afterVelocityGuardsJS ::
  "jsnum contact \<Rightarrow> (jsnum, 'a) entity_scheme list \<Rightarrow> (jsnum, 'a) entity_scheme list" where
  "afterVelocityGuardsJS c es =
     (let es4 = afterPositionGuardsJS c es;
          oldVelA = velocity (es4 ! ref_a c);
          oldVelB = velocity (es4 ! ref_b c);
          es5 = afterImpulseJS c es;
          es6 = revertVelocity (ref_a c) oldVelA es5
      in revertVelocity (ref_b c) oldVelB es6)"

text \<open>An entity as its constructor makes it, on these numbers.\<close>

definition newEntityJS :: "jsnum \<Rightarrow> jsnum \<Rightarrow> jsnum entity" where
  "newEntityJS x y =
     \<lparr>position = Vec2 x y, velocity = zero, isStatic = False, mass = Fin 1,
      restitution = Some (Fin 0.4), collisionShape = NoShape, isSleeping = False,
      sleepTimer = Fin 0, canSleep = True, markedForRemoval = False, hp = Fin 100,
      maxHp = Fin 100, damageThreshold = Fin 500, canCollideStatic = False\<rparr>"

section \<open>Example configurations\<close>

text \<open>
  Two enemies of mass 6 and restitution 1, 40 apart on the X axis, moving towards each
  other at 3 and 5: the contact that detection returns for them swaps the velocities.
\<close>

definition headOn :: "real entity list" where
  "headOn = [(newEnemy 0 0)\<lparr>restitution := Some 1, velocity := Vec2 3 0\<rparr>,
             (newEnemy 40 0)\<lparr>restitution := Some 1, velocity := Vec2 (-5) 0\<rparr>]"

definition headOnContact :: "real contact" where
  "headOnContact = \<lparr>ref_a = 0, ref_b = 1, normal = Vec2 1 0, penetration = 10\<rparr>"

text \<open>
  An enemy whose centre is the centre of a wooden block of level 1, and the slingshot
  of level 1 with the first bird attached.
\<close>

definition centred :: "real entity list" where
  "centred = [newEnemy 800 600, newBlock 750 590 100 20 Wood False]"

definition level1Sling :: "slingshot \<times> bird list" where
  "level1Sling = attachBird 0 (newSlingshot 150 570, [newBird 0 0])"

text \<open>
  The static ground block of the levels, followed by a bird that overlaps its top edge.
\<close>

definition groundThenBird :: "real entity list" where
  "groundThenBird = [newBlock 0 670 1280 50 Stone True, entity.truncate (newBird 640 660)]"

text \<open>A bird that overlaps the top edge of the static ground block, the bird first.\<close>

definition birdThenGround :: "real entity list" where
  "birdThenGround = [entity.truncate (newBird 640 660), newBlock 0 670 1280 50 Stone True]"

text \<open>
  A bird at the launch origin of level 1, launched up and to the right, alone in the
  world.
\<close>

definition launched :: "real entity" where
  "launched = entity.truncate ((newBird 160 555)\<lparr>velocity := Vec2 600 (-600)\<rparr>)"

text \<open>
  The invariant of a lone entity under the stepper that keeps it awake: it cannot sleep,
  or its sleep timer is two ticks from the delay, or one tick and the entity is slow.
\<close>

definition awakeInv :: "(real, 'a) entity_scheme \<Rightarrow> bool" where
  "awakeInv c \<longleftrightarrow>
     \<not> isStatic c \<and> mass c > 0 \<and> \<not> isSleeping c \<and>
     (\<not> canSleep c \<or> sleepTimer c < 58 * TIME_STEP \<or>
      (sleepTimer c < 59 * TIME_STEP \<and> lenSq (velocity c) < 4))"

text \<open>
  Two such entities side by side, with a contact of infinite penetration along X, and
  with one along \<open>(0.6, 0.8)\<close>.
\<close>

definition sideBySide :: "jsnum entity list" where
  "sideBySide = [newEntityJS 0 0, newEntityJS 1 0]"

definition infiniteAlongX :: "jsnum contact" where
  "infiniteAlongX = \<lparr>ref_a = 0, ref_b = 1, normal = Vec2 1 0, penetration = PInf\<rparr>"

definition infiniteOblique :: "jsnum contact" where
  "infiniteOblique =
     \<lparr>ref_a = 0, ref_b = 1, normal = Vec2 (Fin 0.6) (Fin 0.8), penetration = PInf\<rparr>"

text \<open>A contact of penetration 1.1 along X between the two entities side by side.\<close>

definition finiteAlongX :: "jsnum contact" where
  "finiteAlongX = \<lparr>ref_a = 0, ref_b = 1, normal = Vec2 1 0, penetration = Fin 1.1\<rparr>"

section \<open>Auxiliary facts\<close>

lemma nth_upd: "es[i := x] ! k = (if i = k \<and> i < length es then x else es ! k)"
  by (cases "i < length es") (simp_all add: nth_list_update list_update_beyond)

lemma sqrt_less_square: "0 \<le> r \<Longrightarrow> 0 \<le> d \<Longrightarrow> (d < r * r) = (sqrt d < r)"
proof -
  assume r: "0 \<le> r"
  have "(d < r * r) = (sqrt d < sqrt (r * r))" by (simp only: real_sqrt_less_iff)
  also have "sqrt (r * r) = r" using r by simp
  finally show ?thesis .
qed

lemma sqrt_square_eq: "0 \<le> r \<Longrightarrow> sqrt (r * r) = r"
  by simp

lemma wake_fields [simp]:
  "position (wake e) = position e" "velocity (wake e) = velocity e"
  "isStatic (wake e) = isStatic e" "mass (wake e) = mass e"
  "restitution (wake e) = restitution e"
  by (simp_all add: wake_def)

lemma onCollision_fields [simp]:
  "position (onCollision m e) = position e" "velocity (onCollision m e) = velocity e"
  "isStatic (onCollision m e) = isStatic e"
  by (simp_all add: onCollision_def takeDamage_def destroy_def wake_def Let_def)

lemma wakeBoth_length [simp]: "length (wakeBoth c es) = length es"
  by (simp add: wakeBoth_def Let_def)

lemma wakeBoth_fields:
  "position (wakeBoth c es ! k) = position (es ! k)"
  "velocity (wakeBoth c es ! k) = velocity (es ! k)"
  "isStatic (wakeBoth c es ! k) = isStatic (es ! k)"
  "mass (wakeBoth c es ! k) = mass (es ! k)"
  "restitution (wakeBoth c es ! k) = restitution (es ! k)"
  by (simp_all add: wakeBoth_def Let_def nth_upd)

lemma positionalCorrection_length [simp]:
  "length (positionalCorrection c ia ib es) = length es"
  by (simp add: positionalCorrection_def applyCorrection_def Let_def)

lemma positionalCorrection_fields:
  "velocity (positionalCorrection c ia ib es ! k) = velocity (es ! k)"
  "isStatic (positionalCorrection c ia ib es ! k) = isStatic (es ! k)"
  "restitution (positionalCorrection c ia ib es ! k) = restitution (es ! k)"
  by (simp_all add: positionalCorrection_def applyCorrection_def Let_def nth_upd)

lemma positionalCorrection_static:
  "isStatic (es ! k) \<Longrightarrow> position (positionalCorrection c ia ib es ! k) = position (es ! k)"
  by (auto simp add: positionalCorrection_def applyCorrection_def Let_def nth_upd)

lemma applyImpulse_length [simp]: "length (applyImpulse c ia ib v es) = length es"
  by (simp add: applyImpulse_def Let_def)

lemma applyImpulse_fields:
  "position (applyImpulse c ia ib v es ! k) = position (es ! k)"
  "isStatic (applyImpulse c ia ib v es ! k) = isStatic (es ! k)"
  by (simp_all add: applyImpulse_def Let_def nth_upd)

lemma applyImpulse_static:
  "isStatic (es ! k) \<Longrightarrow> velocity (applyImpulse c ia ib v es ! k) = velocity (es ! k)"
  by (auto simp add: applyImpulse_def Let_def nth_upd)

lemma applyImpulse_velocity:
  assumes "ref_a c < length es" "ref_b c < length es" "ref_a c \<noteq> ref_b c"
    "\<not> isStatic (es ! ref_a c)" "\<not> isStatic (es ! ref_b c)"
  shows "velocity (applyImpulse c ia ib v es ! ref_a c) = sub (velocity (es ! ref_a c)) (mul v ia)"
    and "velocity (applyImpulse c ia ib v es ! ref_b c) = add (velocity (es ! ref_b c)) (mul v ib)"
  using assms by (simp_all add: applyImpulse_def Let_def nth_upd)

lemma notify_length [simp]: "length (notify c m es) = length es"
  by (simp add: notify_def Let_def)

lemma notify_fields:
  "position (notify c m es ! k) = position (es ! k)"
  "velocity (notify c m es ! k) = velocity (es ! k)"
  "isStatic (notify c m es ! k) = isStatic (es ! k)"
  by (simp_all add: notify_def Let_def nth_upd)

section \<open>Circle against circle\<close>

text \<open>
  Claim C2. For two circles with non-negative radii, \<open>checkCircleCircle\<close> returns a
  contact exactly when the distance of the centres is strictly below the sum of the
  radii. The contact then has penetration \<open>(r1 + r2) - distance\<close> and the normal
  \<open>(centerB - centerA) / distance\<close>, or \<open>(1, 0)\<close> when the centres coincide.
\<close>

theorem checkCircleCircle_spec:
  fixes a b :: "(real, 'a) entity_scheme"
  assumes "0 \<le> radius (collisionShape a)" and "0 \<le> radius (collisionShape b)"
  shows "checkCircleCircle i a j b =
           (let r = radius (collisionShape a) + radius (collisionShape b);
                d = sub (position b) (position a);
                dist = len d
            in if dist < r
               then Some \<lparr>ref_a = i, ref_b = j,
                          normal = (if dist = 0 then Vec2 1 0
                                    else Vec2 (vec_x d / dist) (vec_y d / dist)),
                          penetration = r - dist\<rparr>
               else None)"
proof -
  obtain dx dy where d: "sub (position b) (position a) = Vec2 dx dy"
    by (cases "sub (position b) (position a)")
  define r where "r = radius (collisionShape a) + radius (collisionShape b)"
  define q where "q = dx * dx + dy * dy"
  have nn: "0 \<le> q" by (simp add: q_def)
  have r: "0 \<le> r" using assms by (simp add: r_def)
  have iff: "(q < r * r) = (sqrt q < r)" by (rule sqrt_less_square [OF r nn])
  have pos: "0 \<le> sqrt q" using nn by simp
  have lhs: "checkCircleCircle i a j b =
      (if q < r * r
       then Some \<lparr>ref_a = i, ref_b = j,
                  normal = (if sqrt q > 0 then div_vec (Vec2 dx dy) (sqrt q) else Vec2 1 0),
                  penetration = r - sqrt q\<rparr>
       else None)"
    by (simp add: checkCircleCircle_def Let_def lenSq_def d r_def q_def)
  have n: "(if sqrt q > 0 then div_vec (Vec2 dx dy) (sqrt q) else Vec2 1 0) =
           (if sqrt q = 0 then Vec2 1 0 else Vec2 (dx / sqrt q) (dy / sqrt q))"
    using pos by (cases "sqrt q = 0") simp_all
  show ?thesis
    unfolding lhs n iff
    by (simp add: Let_def len_def lenSq_def d r_def q_def)
qed

theorem checkCircleCircle_spec_witness:
  "0 \<le> radius (collisionShape (newEnemy 0 0)) \<and>
   0 \<le> radius (collisionShape (newEnemy 0 30)) \<and>
   0 \<le> radius (collisionShape (newEnemy 0 50)) \<and>
   checkCircleCircle 0 (newEnemy 0 0) 1 (newEnemy 0 30) =
     Some \<lparr>ref_a = 0, ref_b = 1, normal = Vec2 0 1, penetration = 20\<rparr> \<and>
   checkCircleCircle 0 (newEnemy 0 0) 1 (newEnemy 0 50) = None"
proof -
  have s30: "sqrt 900 = 30" using sqrt_square_eq [of 30] by simp
  have s50: "sqrt 2500 = 50" using sqrt_square_eq [of 50] by simp
  have h: "0 \<le> radius (collisionShape (newEnemy x y))" for x y
    by (simp add: newEnemy_def newEntity_def ENEMY_RADIUS_def)
  have f: "radius (collisionShape (newEnemy x y)) = 25" "position (newEnemy x y) = Vec2 x y" for x y
    by (simp_all add: newEnemy_def newEntity_def ENEMY_RADIUS_def)
  have a: "checkCircleCircle 0 (newEnemy 0 0) 1 (newEnemy 0 30) =
     Some \<lparr>ref_a = 0, ref_b = 1, normal = Vec2 0 1, penetration = 20\<rparr>"
    unfolding checkCircleCircle_spec [OF h h] f
    by (simp add: len_def lenSq_def s30)
  have b: "checkCircleCircle 0 (newEnemy 0 0) 1 (newEnemy 0 50) = None"
    unfolding checkCircleCircle_spec [OF h h] f
    by (simp add: len_def lenSq_def s50)
  show ?thesis using h a b by simp
qed

section \<open>Box against box\<close>

text \<open>
  Claim C3, as the code has it. For two boxes whose overlaps on both axes are strictly
  positive, \<open>checkAABBAABB\<close> resolves along X when the X overlap is strictly smaller,
  and along Y otherwise, so Y is chosen when the two overlaps are equal. The normal's
  sign on the chosen axis is the sign of the centre delta on that axis, \<open>+1\<close> when the
  delta is \<open>0\<close>, and the penetration is the overlap on the chosen axis.
\<close>

theorem checkAABBAABB_spec:
  fixes a b :: "(real, 'a) entity_scheme"
  assumes "overlapX = (width (collisionShape a) / 2 + width (collisionShape b) / 2)
                        - \<bar>vec_x (position b) - vec_x (position a)\<bar>"
      and "overlapY = (height (collisionShape a) / 2 + height (collisionShape b) / 2)
                        - \<bar>vec_y (position b) - vec_y (position a)\<bar>"
      and "overlapX > 0" and "overlapY > 0"
  shows "checkAABBAABB i a j b =
           Some (if overlapX < overlapY
                 then \<lparr>ref_a = i, ref_b = j,
                       normal = Vec2 (if vec_x (position b) - vec_x (position a) < 0
                                      then -1 else 1) 0,
                       penetration = overlapX\<rparr>
                 else \<lparr>ref_a = i, ref_b = j,
                       normal = Vec2 0 (if vec_y (position b) - vec_y (position a) < 0
                                        then -1 else 1),
                       penetration = overlapY\<rparr>)"
  using assms
  by (cases "position a"; cases "position b") (simp add: checkAABBAABB_def Let_def)

theorem checkAABBAABB_spec_witness:
  "(3::real) > 0 \<and> (1::real) > 0 \<and>
   checkAABBAABB 0 (newBlock 0 0 4 2 Wood False) 1 (newBlock 1 (-1) 4 2 Wood False) =
     Some \<lparr>ref_a = 0, ref_b = 1, normal = Vec2 0 (-1), penetration = 1\<rparr> \<and>
   checkAABBAABB 0 (newBlock 0 0 2 4 Wood False) 1 (newBlock 1 1 2 4 Wood False) =
     Some \<lparr>ref_a = 0, ref_b = 1, normal = Vec2 1 0, penetration = 1\<rparr>"
proof -
  have f: "collisionShape (newBlock x y w h t s) = AABB w h"
          "position (newBlock x y w h t s) = Vec2 (x + w / 2) (y + h / 2)" for x y w h t s
    by (simp_all add: newBlock_def newEntity_def)
  have a: "checkAABBAABB 0 (newBlock 0 0 4 2 Wood False) 1 (newBlock 1 (-1) 4 2 Wood False) =
     Some \<lparr>ref_a = 0, ref_b = 1, normal = Vec2 0 (-1), penetration = 1\<rparr>"
    by (subst checkAABBAABB_spec [where overlapX = 3 and overlapY = 1]) (simp_all add: f)
  have b: "checkAABBAABB 0 (newBlock 0 0 2 4 Wood False) 1 (newBlock 1 1 2 4 Wood False) =
     Some \<lparr>ref_a = 0, ref_b = 1, normal = Vec2 1 0, penetration = 1\<rparr>"
    by (subst checkAABBAABB_spec [where overlapX = 1 and overlapY = 3]) (simp_all add: f)
  show ?thesis using a b by simp
qed

text \<open>
  Two boxes of size 2 by 2 whose centres differ by \<open>(1, 1)\<close> overlap by 1 on both
  axes. The contact is resolved along Y, not along X.
\<close>

theorem checkAABBAABB_tie_counterexample:
  "(2 / 2 + 2 / 2) - \<bar>vec_x (position (newBlock 1 1 2 2 Wood False))
                         - vec_x (position (newBlock 0 0 2 2 Wood False))\<bar>
     = (2 / 2 + 2 / 2) - \<bar>vec_y (position (newBlock 1 1 2 2 Wood False))
                           - vec_y (position (newBlock 0 0 2 2 Wood False))\<bar> \<and>
   checkAABBAABB 0 (newBlock 0 0 2 2 Wood False) 1 (newBlock 1 1 2 2 Wood False) =
     Some \<lparr>ref_a = 0, ref_b = 1, normal = Vec2 0 1, penetration = 1\<rparr> \<and>
   normal (the (checkAABBAABB 0 (newBlock 0 0 2 2 Wood False) 1 (newBlock 1 1 2 2 Wood False)))
     \<noteq> Vec2 1 0"
  by (simp add: checkAABBAABB_def newBlock_def newEntity_def Let_def)

section \<open>The impulse of one contact\<close>

lemma resolveCollision_equal_mass:
  fixes es :: "(real, 'a) entity_scheme list"
  assumes m: "mass (es ! ref_a c) = m" "mass (es ! ref_b c) = m" "m > 0"
    and e: "restitution (es ! ref_a c) = Some 1" "restitution (es ! ref_b c) = Some 1"
    and van: "dot (sub (velocity (es ! ref_b c)) (velocity (es ! ref_a c))) (normal c) = d"
    and appr: "d \<le> 0"
  shows "resolveCollision c es =
           notify c (len (mul (normal c) (- (m * d))))
             (applyImpulse c (1 / m) (1 / m) (mul (normal c) (- (m * d)))
                (positionalCorrection c (1 / m) (1 / m) (wakeBoth c es)))"
proof -
  let ?es1 = "wakeBoth c es"
  let ?es2 = "positionalCorrection c (1 / m) (1 / m) ?es1"
  have im: "invMass (?es1 ! ref_a c) = 1 / m" "invMass (?es1 ! ref_b c) = 1 / m"
    using m by (simp_all add: invMass_def wakeBoth_fields)
  have tot: "1 / m + 1 / m \<noteq> 0" using m(3) by simp
  have van2: "dot (sub (velocity (?es2 ! ref_b c)) (velocity (?es2 ! ref_a c))) (normal c) = d"
    using van by (simp add: positionalCorrection_fields wakeBoth_fields)
  have r2: "restitution (?es2 ! ref_a c) = Some 1" "restitution (?es2 ! ref_b c) = Some 1"
    using e by (simp_all add: positionalCorrection_fields wakeBoth_fields)
  have j: "(- (1 + min 1 1) * d) / orElse (1 / m + 1 / m) (1 / 10 ^ 9) = - (m * d)"
    using m(3) by (simp add: orElse_def field_simps)
  have nd: "\<not> d > 0" using appr by simp
  show ?thesis
    unfolding resolveCollision_def Let_def im van2 r2 option.case j
    using tot nd by (simp only: if_False)
qed

text \<open>
  Claim C5. One contact between two distinct dynamic entities of the same positive mass,
  both with restitution 1, whose velocities lie along the unit contact normal and
  approach each other: after \<open>resolveCollision\<close> the two entities have exchanged their
  velocities.
\<close>

theorem resolveCollision_exchanges_velocities:
  fixes es :: "(real, 'a) entity_scheme list"
  assumes refs: "ref_a c < length es" "ref_b c < length es" "ref_a c \<noteq> ref_b c"
    and dyn: "\<not> isStatic (es ! ref_a c)" "\<not> isStatic (es ! ref_b c)"
    and m: "mass (es ! ref_a c) = m" "mass (es ! ref_b c) = m" "m > 0"
    and e: "restitution (es ! ref_a c) = Some 1" "restitution (es ! ref_b c) = Some 1"
    and n: "len (normal c) = 1"
    and v: "velocity (es ! ref_a c) = mul (normal c) u"
           "velocity (es ! ref_b c) = mul (normal c) w"
    and appr: "w < u"
  shows "velocity (resolveCollision c es ! ref_a c) = velocity (es ! ref_b c) \<and>
         velocity (resolveCollision c es ! ref_b c) = velocity (es ! ref_a c)"
proof -
  obtain nx ny where nc: "normal c = Vec2 nx ny" by (cases "normal c")
  from n have "sqrt (nx * nx + ny * ny) = 1" by (simp add: nc len_def lenSq_def)
  then have unit: "nx * nx + ny * ny = 1" by (simp only: real_sqrt_eq_1_iff)
  have "(nx * w - nx * u) * nx + (ny * w - ny * u) * ny = (w - u) * (nx * nx + ny * ny)"
    by (simp add: algebra_simps)
  then have van: "dot (sub (velocity (es ! ref_b c)) (velocity (es ! ref_a c))) (normal c) = w - u"
    by (simp add: v nc unit)
  have le: "w - u \<le> 0" using appr by simp
  let ?es2 = "positionalCorrection c (1 / m) (1 / m) (wakeBoth c es)"
  let ?imp = "mul (normal c) (- (m * (w - u)))"
  note res = resolveCollision_equal_mass [OF m e van le]
  have l2: "ref_a c < length ?es2" "ref_b c < length ?es2" using refs by simp_all
  have s2: "\<not> isStatic (?es2 ! ref_a c)" "\<not> isStatic (?es2 ! ref_b c)"
    using dyn by (simp_all add: positionalCorrection_fields wakeBoth_fields)
  have v2: "velocity (?es2 ! ref_a c) = Vec2 (nx * u) (ny * u)"
           "velocity (?es2 ! ref_b c) = Vec2 (nx * w) (ny * w)"
    using v by (simp_all add: positionalCorrection_fields wakeBoth_fields nc)
  have a: "velocity (resolveCollision c es ! ref_a c)
             = sub (Vec2 (nx * u) (ny * u)) (mul ?imp (1 / m))"
    unfolding res notify_fields
    by (simp only: applyImpulse_velocity(1) [OF l2 refs(3) s2] v2)
  have b: "velocity (resolveCollision c es ! ref_b c)
             = add (Vec2 (nx * w) (ny * w)) (mul ?imp (1 / m))"
    unfolding res notify_fields
    by (simp only: applyImpulse_velocity(2) [OF l2 refs(3) s2] v2)
  show ?thesis
    using m(3) unfolding a b v nc by (simp add: algebra_simps)
qed

theorem resolveCollision_exchanges_velocities_witness:
  "ref_a headOnContact < length headOn \<and> ref_b headOnContact < length headOn \<and>
   ref_a headOnContact \<noteq> ref_b headOnContact \<and>
   \<not> isStatic (headOn ! ref_a headOnContact) \<and> \<not> isStatic (headOn ! ref_b headOnContact) \<and>
   mass (headOn ! ref_a headOnContact) = 6 \<and> mass (headOn ! ref_b headOnContact) = 6 \<and>
   (6::real) > 0 \<and>
   restitution (headOn ! ref_a headOnContact) = Some 1 \<and>
   restitution (headOn ! ref_b headOnContact) = Some 1 \<and>
   len (normal headOnContact) = 1 \<and>
   velocity (headOn ! ref_a headOnContact) = mul (normal headOnContact) 3 \<and>
   velocity (headOn ! ref_b headOnContact) = mul (normal headOnContact) (-5) \<and>
   (-5::real) < 3 \<and>
   detectCollisions headOn = [headOnContact] \<and>
   velocity (resolveCollision headOnContact headOn ! 0) = Vec2 (-5) 0 \<and>
   velocity (resolveCollision headOnContact headOn ! 1) = Vec2 3 0"
proof -
  have s40: "sqrt 1600 = 40" using sqrt_square_eq [of 40] by simp
  have h: "ref_a headOnContact < length headOn" "ref_b headOnContact < length headOn"
    "ref_a headOnContact \<noteq> ref_b headOnContact"
    "\<not> isStatic (headOn ! ref_a headOnContact)" "\<not> isStatic (headOn ! ref_b headOnContact)"
    "mass (headOn ! ref_a headOnContact) = 6" "mass (headOn ! ref_b headOnContact) = 6"
    "(6::real) > 0"
    "restitution (headOn ! ref_a headOnContact) = Some 1"
    "restitution (headOn ! ref_b headOnContact) = Some 1"
    "len (normal headOnContact) = 1"
    "velocity (headOn ! ref_a headOnContact) = mul (normal headOnContact) 3"
    "velocity (headOn ! ref_b headOnContact) = mul (normal headOnContact) (-5)"
    "(-5::real) < 3"
    by (simp_all add: headOn_def headOnContact_def newEnemy_def newEntity_def ENEMY_MASS_def
          len_def lenSq_def)
  have d: "detectCollisions headOn = [headOnContact]"
    by (simp add: detectCollisions_def rowContacts_def pairContacts_def headOn_def
          headOnContact_def newEnemy_def newEntity_def
          checkCollision_def checkCircleCircle_def ENEMY_RADIUS_def lenSq_def Let_def s40
          upt_rec [of 0] upt_rec [of 1])
  have r: "velocity (resolveCollision headOnContact headOn ! 0) = Vec2 (-5) 0"
          "velocity (resolveCollision headOnContact headOn ! 1) = Vec2 3 0"
    using resolveCollision_exchanges_velocities [OF h]
    by (simp_all add: headOn_def headOnContact_def newEnemy_def newEntity_def)
  show ?thesis using h d r by simp
qed

section \<open>Damage\<close>

text \<open>
  Claim C6. For a non-static entity, the collision callback lowers the health by exactly
  \<open>impulseMagnitude * 0.05\<close> when the impulse magnitude is strictly above the damage
  threshold, and leaves it unchanged otherwise. The entity is marked for removal by the
  callback exactly when such damage brings the health to \<open>0\<close> or below; an entity that
  was not marked before is not marked while its health stays positive.
\<close>

theorem onCollision_damage:
  fixes e :: "(real, 'a) entity_scheme"
  assumes "\<not> isStatic e"
  shows "hp (onCollision impulseMagnitude e) =
           (if impulseMagnitude > damageThreshold e
            then hp e - impulseMagnitude * 0.05 else hp e) \<and>
         markedForRemoval (onCollision impulseMagnitude e) =
           (markedForRemoval e \<or>
            (impulseMagnitude > damageThreshold e \<and> hp e - impulseMagnitude * 0.05 \<le> 0))"
  using assms by (simp add: onCollision_def takeDamage_def destroy_def wake_def Let_def)

theorem onCollision_damage_witness:
  "\<not> isStatic (newEnemy 0 0) \<and>
   hp (onCollision 400 (newEnemy 0 0)) = 130 \<and>
   \<not> markedForRemoval (onCollision 400 (newEnemy 0 0)) \<and>
   hp (onCollision 300 (newEnemy 0 0)) = 150 \<and>
   hp (onCollision 3000 (newEnemy 0 0)) = 0 \<and>
   markedForRemoval (onCollision 3000 (newEnemy 0 0))"
proof -
  have h: "\<not> isStatic (newEnemy 0 0)" by (simp add: newEnemy_def newEntity_def)
  show ?thesis
    using h onCollision_damage [OF h, of 400] onCollision_damage [OF h, of 300]
      onCollision_damage [OF h, of 3000]
    by (simp add: newEnemy_def newEntity_def)
qed

section \<open>The normal of a contact\<close>

text \<open>
  Claim C9 fails where a circle's centre is the centre of a box. The circle-box test
  then takes its fallback for a centre inside the box, \<open>vec.normalize()\<close>, on the zero
  vector, and \<open>normalize\<close> returns the zero vector. The contact that detection returns
  for the enemy on the block has the normal \<open>(0, 0)\<close>, of length 0. The circle-circle
  test has the fallback \<open>(1, 0)\<close> for this case.
\<close>

theorem detectCollisions_zero_normal:
  "detectCollisions centred = [\<lparr>ref_a = 0, ref_b = 1, normal = Vec2 0 0, penetration = 25\<rparr>] \<and>
   len (Vec2 0 0) = 0"
  by (simp add: detectCollisions_def rowContacts_def pairContacts_def centred_def
        newEnemy_def newBlock_def newEntity_def
        checkCollision_def checkCircleAABB_def ENEMY_RADIUS_def lenSq_def len_def
        normalize_vec_def Let_def upt_rec [of 0] upt_rec [of 1])

lemma len_div_len:
  assumes "sqrt (x * x + y * y) > 0"
  shows "len (div_vec (Vec2 x y) (sqrt (x * x + y * y))) = 1"
proof -
  define d where "d = sqrt (x * x + y * y)"
  have d: "d > 0" "d * d = x * x + y * y" using assms by (simp_all add: d_def)
  have "(x / d) * (x / d) + (y / d) * (y / d) = (x * x + y * y) / (d * d)"
    using d(1) by (simp add: field_simps)
  also have "\<dots> = (d * d) / (d * d)" by (simp only: d(2))
  also have "\<dots> = 1" using d(1) by simp
  finally have one: "(x / d) * (x / d) + (y / d) * (y / d) = 1" .
  have dv: "div_vec (Vec2 x y) d = Vec2 (x / d) (y / d)" using d(1) by simp
  have "len (Vec2 (x / d) (y / d)) = sqrt ((x / d) * (x / d) + (y / d) * (y / d))"
    by (simp only: len_def lenSq_def dot.simps)
  also have "\<dots> = 1" by (simp only: one real_sqrt_one)
  finally have "len (div_vec (Vec2 x y) d) = 1" by (simp only: dv)
  then show ?thesis by (simp only: d_def)
qed

lemma len_normalize_vec:
  assumes "v \<noteq> Vec2 0 0"
  shows "len (normalize_vec v) = 1"
proof -
  obtain x y where v: "v = Vec2 x y" by (cases v)
  have "x \<noteq> 0 \<or> y \<noteq> 0" using assms v by simp
  then have "x * x + y * y > 0"
    by (metis not_sum_squares_lt_zero sum_squares_eq_zero_iff less_eq_real_def not_le)
  then have "sqrt (x * x + y * y) > 0" by simp
  then show ?thesis
    using len_div_len [of x y] by (simp add: normalize_vec_def len_def lenSq_def v Let_def)
qed

lemma len_negate: "len (mul v (- 1)) = len v"
  by (cases v) (simp add: len_def lenSq_def)

lemma sqrt_less_radius:
  assumes "q < r * r" and "0 \<le> r" and "0 \<le> q"
  shows "0 \<le> r - sqrt q"
  using sqrt_less_square [OF assms(2,3)] assms(1) by simp

lemma checkCircleCircle_unit:
  assumes "checkCircleCircle i a j b = Some c"
    and "0 \<le> radius (collisionShape a)" and "0 \<le> radius (collisionShape b)"
  shows "len (normal c) = 1 \<and> 0 \<le> penetration c"
proof -
  obtain x y where d: "sub (position b) (position a) = Vec2 x y"
    by (cases "sub (position b) (position a)")
  let ?r = "radius (collisionShape a) + radius (collisionShape b)"
  have lt: "x * x + y * y < ?r * ?r"
    using assms(1) by (simp add: checkCircleCircle_def Let_def lenSq_def d split: if_splits)
  have c: "c = \<lparr>ref_a = i, ref_b = j,
                normal = (if sqrt (x * x + y * y) > 0
                          then div_vec (Vec2 x y) (sqrt (x * x + y * y)) else Vec2 1 0),
                penetration = ?r - sqrt (x * x + y * y)\<rparr>"
    using assms(1) lt by (simp add: checkCircleCircle_def Let_def lenSq_def d)
  have p: "0 \<le> ?r - sqrt (x * x + y * y)"
    using sqrt_less_radius [OF lt] assms(2,3) by simp
  show ?thesis
  proof (cases "sqrt (x * x + y * y) > 0")
    case True
    then show ?thesis using c p len_div_len [OF True] by simp
  next
    case False
    then show ?thesis using c p by (simp add: len_def lenSq_def)
  qed
qed

lemma checkAABBAABB_unit:
  assumes "checkAABBAABB i a j b = Some c"
  shows "len (normal c) = 1 \<and> 0 \<le> penetration c"
  using assms
  by (auto simp add: checkAABBAABB_def Let_def len_def lenSq_def split: if_splits)

lemma checkCircleAABB_unit:
  assumes "checkCircleAABB i a j b = Some c"
    and "0 \<le> radius (collisionShape a)" and "position a \<noteq> position b"
  shows "len (normal c) = 1 \<and> 0 \<le> penetration c"
proof -
  define vec where "vec = sub (position a) (position b)"
  define cl where "cl = Vec2 (max (- (width (collisionShape b) / 2))
                                  (min (vec_x vec) (width (collisionShape b) / 2)))
                             (max (- (height (collisionShape b) / 2))
                                  (min (vec_y vec) (height (collisionShape b) / 2)))"
  obtain x y where d: "sub vec cl = Vec2 x y" by (cases "sub vec cl")
  let ?r = "radius (collisionShape a)"
  have vn: "vec \<noteq> Vec2 0 0"
    using assms(3) by (cases "position a"; cases "position b") (auto simp add: vec_def)
  have def: "checkCircleAABB i a j b =
      (if x * x + y * y < ?r * ?r
       then Some \<lparr>ref_a = i, ref_b = j,
                  normal = (if sqrt (x * x + y * y) > 0
                            then div_vec (Vec2 x y) (sqrt (x * x + y * y))
                            else normalize_vec vec),
                  penetration = ?r - sqrt (x * x + y * y)\<rparr>
       else None)"
    unfolding checkCircleAABB_def Let_def
    unfolding vec_def [symmetric]
    unfolding cl_def [symmetric]
    unfolding d lenSq_def dot.simps ..
  have lt: "x * x + y * y < ?r * ?r"
    using assms(1) unfolding def by (simp split: if_splits)
  have c: "c = \<lparr>ref_a = i, ref_b = j,
                normal = (if sqrt (x * x + y * y) > 0
                          then div_vec (Vec2 x y) (sqrt (x * x + y * y))
                          else normalize_vec vec),
                penetration = ?r - sqrt (x * x + y * y)\<rparr>"
    using assms(1) lt unfolding def by (simp only: if_True option.inject)
  have p: "0 \<le> ?r - sqrt (x * x + y * y)"
    using sqrt_less_radius [OF lt] assms(2) by simp
  show ?thesis
  proof (cases "sqrt (x * x + y * y) > 0")
    case True
    then show ?thesis using c p len_div_len [OF True] by simp
  next
    case False
    then show ?thesis using c p len_normalize_vec [OF vn] by simp
  qed
qed

text \<open>
  Everywhere else the claim holds: with non-negative radii, a contact that
  \<open>checkCollision\<close> returns has a normal of length 1 and a penetration that is not
  negative, unless it is between a circle and a box with the same centre.
\<close>

lemma checkCollision_unit_normal:
  assumes "checkCollision i a j b = Some c"
    and "\<And>r. collisionShape a = Circle r \<Longrightarrow> 0 \<le> r"
    and "\<And>r. collisionShape b = Circle r \<Longrightarrow> 0 \<le> r"
    and "position a \<noteq> position b \<or>
         (\<exists>r r'. collisionShape a = Circle r \<and> collisionShape b = Circle r') \<or>
         (\<exists>w h w' h'. collisionShape a = AABB w h \<and> collisionShape b = AABB w' h')"
  shows "len (normal c) = 1 \<and> 0 \<le> penetration c"
proof (cases "collisionShape a")
  case NoShape
  then show ?thesis using assms(1) by (simp add: checkCollision_def)
next
  case ca: (Circle r)
  then have ra: "0 \<le> radius (collisionShape a)" using assms(2) by simp
  show ?thesis
  proof (cases "collisionShape b")
    case NoShape
    then show ?thesis using assms(1) ca by (simp add: checkCollision_def)
  next
    case cb: (Circle r')
    then have "0 \<le> radius (collisionShape b)" using assms(3) by simp
    then show ?thesis
      using assms(1) ca cb ra checkCircleCircle_unit [of i a j b c]
      by (simp add: checkCollision_def)
  next
    case (AABB w h)
    then have "position a \<noteq> position b" using assms(4) ca by auto
    then show ?thesis
      using assms(1) ca AABB ra checkCircleAABB_unit [of i a j b c]
      by (simp add: checkCollision_def)
  qed
next
  case ba: (AABB w h)
  show ?thesis
  proof (cases "collisionShape b")
    case NoShape
    then show ?thesis using assms(1) ba by (simp add: checkCollision_def)
  next
    case cb: (Circle r')
    then have rb: "0 \<le> radius (collisionShape b)" using assms(3) by simp
    have ne: "position b \<noteq> position a" using assms(4) ba cb by auto
    obtain result where r: "checkCircleAABB j b i a = Some result"
        and c: "c = result\<lparr>normal := mul (normal result) (- 1)\<rparr>"
      using assms(1) ba cb by (auto simp add: checkCollision_def split: option.splits)
    show ?thesis using checkCircleAABB_unit [OF r rb ne] c by (simp add: len_negate)
  next
    case (AABB w' h')
    then show ?thesis
      using assms(1) ba checkAABBAABB_unit [of i a j b c] by (simp add: checkCollision_def)
  qed
qed

section \<open>Ending an aim without a pull\<close>

lemma level1Sling_eq:
  "level1Sling =
     ((newSlingshot 150 570)\<lparr>aimingBird := Some 0\<rparr>,
      [(newBird 0 0)\<lparr>state := Aiming, position := Vec2 160 555\<rparr>])"
  by (simp add: level1Sling_def attachBird_def newSlingshot_def newBird_def anchorFrontPos_def
        wake_def zero_def BIRD_RADIUS_def)

text \<open>
  Claim C8 fails. The bird is attached 20 above the front anchor, and the launch vector
  is measured from the anchor, not from that rest position. With the pointer pressed on
  the bird and released at the same point, the drag vector is \<open>(0, 0)\<close>, the launch
  vector is \<open>(0, 20)\<close>, \<open>endAim\<close> returns true and the bird is flying, downwards.
  The same happens when no \<open>updateAim\<close> runs between press and release.
\<close>

theorem endAim_no_pull:
  "startAim (Vec2 160 555) level1Sling =
     (True, (fst level1Sling)\<lparr>dragStartPos := Some (Vec2 160 555),
                               dragCurrentPos := Some (Vec2 160 555)\<rparr>, snd level1Sling) \<and>
   sub (Vec2 160 555) (Vec2 160 555) = (Vec2 0 0 :: real vec2) \<and>
   getLaunchVelocity (updateAim (Vec2 160 555) (snd (startAim (Vec2 160 555) level1Sling)))
     = Vec2 0 20 \<and>
   fst (endAim (updateAim (Vec2 160 555) (snd (startAim (Vec2 160 555) level1Sling)))) = True \<and>
   state (snd (snd (endAim (updateAim (Vec2 160 555)
            (snd (startAim (Vec2 160 555) level1Sling))))) ! 0) = Flying \<and>
   velocity (snd (snd (endAim (updateAim (Vec2 160 555)
            (snd (startAim (Vec2 160 555) level1Sling))))) ! 0) = Vec2 0 (3000 / 7) \<and>
   fst (endAim (snd (startAim (Vec2 160 555) level1Sling))) = True \<and>
   state (snd (snd (endAim (snd (startAim (Vec2 160 555) level1Sling)))) ! 0) = Flying"
proof -
  have s20: "sqrt 400 = 20" using sqrt_square_eq [of 20] by simp
  show ?thesis
    by (simp add: level1Sling_eq startAim_def updateAim_def endAim_def getLaunchVelocity_def
        launch_def newSlingshot_def newBird_def anchorFrontPos_def wake_def zero_def
        BIRD_RADIUS_def lenSq_def len_def s20 Let_def LAUNCH_POWER_def FRICTION_def)
qed

lemma endAim_clears:
  "aimingBird (fst (snd (endAim st))) = None \<and>
   dragStartPos (fst (snd (endAim st))) = None \<and>
   dragCurrentPos (fst (snd (endAim st))) = None"
  by (cases st) (simp add: endAim_def Let_def split: option.splits)

lemma getLaunchVelocity_raw:
  assumes "aimingBird s = Some b" and "dragStartPos s = Some start"
  shows "getLaunchVelocity (s, es) = sub (anchorFrontPos s) (position (es ! b))"
  using assms by (simp add: getLaunchVelocity_def)

lemma lenSq_positive: "(lenSq (v :: real vec2) > 0) = (v \<noteq> Vec2 0 0)"
proof (cases v)
  case (Vec2 x y)
  have "(x * x + y * y > 0) = (x \<noteq> 0 \<or> y \<noteq> 0)"
    by (metis not_sum_squares_lt_zero sum_squares_eq_zero_iff less_eq_real_def not_le)
  then show ?thesis by (simp add: Vec2 lenSq_def)
qed

text \<open>
  \<open>endAim\<close> launches exactly when the bird is not on the front anchor itself, which
  is 20 below the point where \<open>attachBird\<close> puts it.
\<close>

lemma endAim_launches_iff:
  assumes "aimingBird s = Some b" and "dragStartPos s = Some start"
  shows "fst (endAim (s, es)) = (position (es ! b) \<noteq> anchorFrontPos s)"
proof -
  have "(sub (anchorFrontPos s) (position (es ! b)) \<noteq> Vec2 0 0)
          = (position (es ! b) \<noteq> anchorFrontPos s)"
    by (cases "anchorFrontPos s"; cases "position (es ! b)") auto
  then show ?thesis
    using assms by (simp add: endAim_def Let_def getLaunchVelocity_def lenSq_positive)
qed

section \<open>Pairs that detection skips\<close>

lemma checkCircleCircle_refs:
  "checkCircleCircle i a j b = Some c \<Longrightarrow> ref_a c = i \<and> ref_b c = j"
  by (auto simp add: checkCircleCircle_def Let_def split: if_splits)

lemma checkAABBAABB_refs:
  "checkAABBAABB i a j b = Some c \<Longrightarrow> ref_a c = i \<and> ref_b c = j"
  by (auto simp add: checkAABBAABB_def Let_def split: if_splits)

lemma checkCircleAABB_refs:
  "checkCircleAABB i a j b = Some c \<Longrightarrow> ref_a c = i \<and> ref_b c = j"
  by (auto simp add: checkCircleAABB_def Let_def split: if_splits)

lemma checkCollision_refs:
  assumes "checkCollision i a j b = Some c"
  shows "{ref_a c, ref_b c} = {i, j}"
proof (cases "collisionShape a")
  case NoShape
  then show ?thesis using assms by (simp add: checkCollision_def)
next
  case ca: (Circle r)
  show ?thesis
  proof (cases "collisionShape b")
    case NoShape
    then show ?thesis using assms ca by (simp add: checkCollision_def)
  next
    case (Circle r')
    then show ?thesis
      using assms ca checkCircleCircle_refs [of i a j b c] by (simp add: checkCollision_def)
  next
    case (AABB w h)
    then show ?thesis
      using assms ca checkCircleAABB_refs [of i a j b c] by (simp add: checkCollision_def)
  qed
next
  case ba: (AABB w h)
  show ?thesis
  proof (cases "collisionShape b")
    case NoShape
    then show ?thesis using assms ba by (simp add: checkCollision_def)
  next
    case (Circle r')
    then obtain result where r: "checkCircleAABB j b i a = Some result"
        and c: "c = result\<lparr>normal := mul (normal result) (-1)\<rparr>"
      using assms ba by (auto simp add: checkCollision_def split: option.splits)
    show ?thesis using checkCircleAABB_refs [OF r] c by auto
  next
    case (AABB w' h')
    then show ?thesis
      using assms ba checkAABBAABB_refs [of i a j b c] by (simp add: checkCollision_def)
  qed
qed

lemma detectCollisions_origin:
  assumes "c \<in> set (detectCollisions es)"
  shows "\<exists>i j. i < j \<and> j < length es \<and>
               \<not> (isStatic (es ! i) \<and> \<not> canCollideStatic (es ! i)) \<and>
               \<not> (isStatic (es ! i) \<and> isStatic (es ! j)) \<and>
               \<not> (isSleeping (es ! i) \<and> isSleeping (es ! j)) \<and>
               checkCollision i (es ! i) j (es ! j) = Some c"
proof -
  from assms obtain i where ci: "c \<in> set (rowContacts es i)"
    by (auto simp add: detectCollisions_def)
  have ns: "\<not> (isStatic (es ! i) \<and> \<not> canCollideStatic (es ! i))"
    using ci by (auto simp add: rowContacts_def Let_def split: if_splits)
  with ci obtain j where j': "Suc i \<le> j" "j < length es"
      and cj: "c \<in> set (pairContacts es i j)"
    by (auto simp add: rowContacts_def Let_def)
  from j' have j: "i < j" "j < length es" by simp_all
  have np: "\<not> ((isStatic (es ! i) \<and> isStatic (es ! j)) \<or>
                (isSleeping (es ! i) \<and> isSleeping (es ! j)))"
    using cj by (auto simp add: pairContacts_def Let_def split: if_splits)
  with cj have "checkCollision i (es ! i) j (es ! j) = Some c"
    by (auto simp add: pairContacts_def Let_def split: option.splits)
  with j ns np show ?thesis by blast
qed

text \<open>
  Claim C10. When the entity at the smaller index of a pair is static and not flagged
  \<open>canCollideStatic\<close>, \<open>detectCollisions\<close> returns no contact between the two, whatever
  the other entity is. So an entity added to the world after such a static entity
  never gets a contact with it.
\<close>

theorem detectCollisions_skips_static_first:
  assumes "i < j" and "isStatic (es ! i)" and "\<not> canCollideStatic (es ! i)"
  shows "\<forall>c \<in> set (detectCollisions es). {ref_a c, ref_b c} \<noteq> {i, j}"
proof
  fix c assume "c \<in> set (detectCollisions es)"
  then obtain i' j' where o: "i' < j'"
      "\<not> (isStatic (es ! i') \<and> \<not> canCollideStatic (es ! i'))"
      "checkCollision i' (es ! i') j' (es ! j') = Some c"
    using detectCollisions_origin by blast
  have r: "{ref_a c, ref_b c} = {i', j'}" by (rule checkCollision_refs [OF o(3)])
  show "{ref_a c, ref_b c} \<noteq> {i, j}"
  proof
    assume "{ref_a c, ref_b c} = {i, j}"
    then have "{i', j'} = {i, j}" using r by simp
    then have "i' = i" using o(1) assms(1) by (auto simp add: doubleton_eq_iff)
    then show False using o(2) assms(2,3) by simp
  qed
qed

theorem detectCollisions_skips_static_first_witness:
  "(0::nat) < 1 \<and> isStatic (groundThenBird ! 0) \<and> \<not> canCollideStatic (groundThenBird ! 0) \<and>
   \<not> isStatic (groundThenBird ! 1) \<and>
   (\<exists>c. checkCollision 0 (groundThenBird ! 0) 1 (groundThenBird ! 1) = Some c) \<and>
   (\<exists>c. checkCollision 1 (groundThenBird ! 1) 0 (groundThenBird ! 0) = Some c) \<and>
   detectCollisions groundThenBird = [] \<and>
   {c \<in> set (detectCollisions groundThenBird). {ref_a c, ref_b c} = {0, 1}} = {}"
proof -
  have h: "(0::nat) < 1" "isStatic (groundThenBird ! 0)" "\<not> canCollideStatic (groundThenBird ! 0)"
    by (simp_all add: groundThenBird_def newBlock_def newEntity_def)
  have d: "\<not> isStatic (groundThenBird ! 1)"
    by (simp add: groundThenBird_def newBird_def entity.truncate_def)
  have c1: "\<exists>c. checkCollision 0 (groundThenBird ! 0) 1 (groundThenBird ! 1) = Some c"
    by (simp add: groundThenBird_def newBlock_def newEntity_def newBird_def entity.truncate_def
        checkCollision_def checkCircleAABB_def BIRD_RADIUS_def lenSq_def Let_def)
  have c2: "\<exists>c. checkCollision 1 (groundThenBird ! 1) 0 (groundThenBird ! 0) = Some c"
    by (simp add: groundThenBird_def newBlock_def newEntity_def newBird_def entity.truncate_def
        checkCollision_def checkCircleAABB_def BIRD_RADIUS_def lenSq_def Let_def)
  have e: "detectCollisions groundThenBird = []"
    by (simp add: detectCollisions_def rowContacts_def pairContacts_def groundThenBird_def
        newBlock_def newEntity_def
        Let_def upt_rec [of 0] upt_rec [of 1])
  show ?thesis
    using h d c1 c2 e detectCollisions_skips_static_first [OF h] by blast
qed

section \<open>Static entities\<close>

lemma resolveCollision_length [simp]: "length (resolveCollision c es) = length es"
  by (simp add: resolveCollision_def Let_def)

lemma resolveCollision_isStatic:
  "isStatic (resolveCollision c es ! k) = isStatic (es ! k)"
  by (simp add: resolveCollision_def Let_def notify_fields applyImpulse_fields
        positionalCorrection_fields wakeBoth_fields)

lemma resolveCollision_static_position:
  "isStatic (es ! k) \<Longrightarrow> position (resolveCollision c es ! k) = position (es ! k)"
  by (simp add: resolveCollision_def Let_def notify_fields applyImpulse_fields
        positionalCorrection_static wakeBoth_fields)

lemma resolveCollision_static_velocity:
  "isStatic (es ! k) \<Longrightarrow> velocity (resolveCollision c es ! k) = velocity (es ! k)"
  by (simp add: resolveCollision_def Let_def notify_fields applyImpulse_static
        positionalCorrection_fields wakeBoth_fields)

lemma resolveCollisions_length [simp]: "length (resolveCollisions cs es) = length es"
  unfolding resolveCollisions_def by (induction cs arbitrary: es) simp_all

lemma resolveCollisions_isStatic:
  "isStatic (resolveCollisions cs es ! k) = isStatic (es ! k)"
  unfolding resolveCollisions_def
  by (induction cs arbitrary: es) (simp_all add: resolveCollision_isStatic)

lemma resolveCollisions_static:
  "isStatic (es ! k) \<Longrightarrow>
     position (resolveCollisions cs es ! k) = position (es ! k) \<and>
     velocity (resolveCollisions cs es ! k) = velocity (es ! k)"
  unfolding resolveCollisions_def
  by (induction cs arbitrary: es)
     (simp_all add: resolveCollision_isStatic resolveCollision_static_position
        resolveCollision_static_velocity)

lemma subStep_length [simp]: "length (subStep es) = length es"
  by (simp add: subStep_def)

lemma subStep_isStatic: "isStatic (subStep es ! k) = isStatic (es ! k)"
  by (simp add: subStep_def resolveCollisions_isStatic)

lemma subStep_static:
  "isStatic (es ! k) \<Longrightarrow>
     position (subStep es ! k) = position (es ! k) \<and>
     velocity (subStep es ! k) = velocity (es ! k)"
  by (simp add: subStep_def resolveCollisions_static)

lemma subSteps_length [simp]: "length ((subStep ^^ n) es) = length es"
  by (induction n) simp_all

lemma subSteps_isStatic: "isStatic ((subStep ^^ n) es ! k) = isStatic (es ! k)"
  by (induction n) (simp_all add: subStep_isStatic)

lemma subSteps_static:
  "isStatic (es ! k) \<Longrightarrow>
     position ((subStep ^^ n) es ! k) = position (es ! k) \<and>
     velocity ((subStep ^^ n) es ! k) = velocity (es ! k)"
  by (induction n) (simp_all add: subStep_static subSteps_isStatic)

lemma applyForces1_static:
  "isStatic (applyForces1 dt e) = isStatic e"
  "isStatic e \<Longrightarrow> applyForces1 dt e = e"
  by (simp_all add: applyForces1_def Let_def)

lemma integrate1_static:
  "isStatic (integrate1 dt e) = isStatic e"
  "isStatic e \<Longrightarrow> integrate1 dt e = e"
  by (simp_all add: integrate1_def)

lemma updateSleepState1_static:
  "isStatic (updateSleepState1 dt e) = isStatic e"
  "isStatic e \<Longrightarrow> updateSleepState1 dt e = e"
  by (simp_all add: updateSleepState1_def Let_def wake_def)

lemma update_length [simp]: "length (update dt es) = length es"
  by (simp add: update_def updateSleepState_def integrate_def applyForces_def)

lemma update_isStatic:
  "k < length es \<Longrightarrow> isStatic (update dt es ! k) = isStatic (es ! k)"
  by (simp add: update_def updateSleepState_def integrate_def applyForces_def
        updateSleepState1_static subSteps_isStatic integrate1_static applyForces1_static)

lemma update_static:
  assumes "k < length es" and "isStatic (es ! k)"
  shows "position (update dt es ! k) = position (es ! k) \<and>
         velocity (update dt es ! k) = velocity (es ! k)"
proof -
  let ?es1 = "integrate dt (applyForces dt es)"
  have e1: "?es1 ! k = es ! k"
    using assms by (simp add: integrate_def applyForces_def integrate1_static applyForces1_static)
  have s: "isStatic ((subStep ^^ subSteps) ?es1 ! k)"
    using assms e1 by (simp add: subSteps_isStatic)
  have l: "k < length ((subStep ^^ subSteps) ?es1)"
    using assms by (simp add: integrate_def applyForces_def)
  have "update dt es ! k = (subStep ^^ subSteps) ?es1 ! k"
    using l s by (simp add: update_def updateSleepState_def updateSleepState1_static)
  then show ?thesis
    using subSteps_static [of ?es1 k subSteps] assms e1 by simp
qed

lemma updates_length [simp]: "length ((update dt ^^ n) es) = length es"
  by (induction n) simp_all

lemma updates_isStatic:
  "k < length es \<Longrightarrow> isStatic ((update dt ^^ n) es ! k) = isStatic (es ! k)"
  by (induction n) (simp_all add: update_isStatic)

text \<open>
  Claim C4. A static entity of the world has the same position and the same velocity
  after any number of ticks of \<open>update\<close>, whatever the other entities and the contacts
  are. The same holds for each collision sub-step alone.
\<close>

theorem static_entity_unchanged:
  assumes "k < length es" and "isStatic (es ! k)"
  shows "position ((update dt ^^ n) es ! k) = position (es ! k) \<and>
         velocity ((update dt ^^ n) es ! k) = velocity (es ! k) \<and>
         position (subStep es ! k) = position (es ! k) \<and>
         velocity (subStep es ! k) = velocity (es ! k)"
proof -
  have "position ((update dt ^^ n) es ! k) = position (es ! k) \<and>
        velocity ((update dt ^^ n) es ! k) = velocity (es ! k)"
  proof (induction n)
    case 0
    show ?case by simp
  next
    case (Suc n)
    have "k < length ((update dt ^^ n) es)" using assms(1) by simp
    moreover have "isStatic ((update dt ^^ n) es ! k)"
      using assms by (simp add: updates_isStatic)
    ultimately show ?case
      using update_static [of k "(update dt ^^ n) es" dt] Suc.IH by simp
  qed
  then show ?thesis using subStep_static [OF assms(2)] by simp
qed

theorem static_entity_unchanged_witness:
  "1 < length birdThenGround \<and> isStatic (birdThenGround ! 1) \<and>
   detectCollisions birdThenGround =
     [\<lparr>ref_a = 0, ref_b = 1, normal = Vec2 0 (-1), penetration = 10\<rparr>] \<and>
   position ((update TIME_STEP ^^ 600) birdThenGround ! 1) = Vec2 640 695 \<and>
   velocity ((update TIME_STEP ^^ 600) birdThenGround ! 1) = Vec2 0 0 \<and>
   position (subStep birdThenGround ! 1) = Vec2 640 695 \<and>
   velocity (subStep birdThenGround ! 1) = Vec2 0 0"
proof -
  have s10: "sqrt 100 = 10" using sqrt_square_eq [of 10] by simp
  have h: "1 < length birdThenGround" "isStatic (birdThenGround ! 1)"
    by (simp_all add: birdThenGround_def newBlock_def newEntity_def)
  have f: "position (birdThenGround ! 1) = Vec2 640 695"
          "velocity (birdThenGround ! 1) = Vec2 0 0"
    by (simp_all add: birdThenGround_def newBlock_def newEntity_def zero_def)
  have d: "detectCollisions birdThenGround =
     [\<lparr>ref_a = 0, ref_b = 1, normal = Vec2 0 (-1), penetration = 10\<rparr>]"
    by (simp add: detectCollisions_def rowContacts_def pairContacts_def birdThenGround_def
          newBlock_def newEntity_def newBird_def entity.truncate_def checkCollision_def
          checkCircleAABB_def BIRD_RADIUS_def lenSq_def Let_def s10
          upt_rec [of 0] upt_rec [of 1])
  show ?thesis
    using static_entity_unchanged [OF h, where dt = TIME_STEP and n = 600] h d f by simp
qed

section \<open>The predictor and the stepper\<close>

lemma detectCollisions_lone [simp]: "detectCollisions [b] = []"
  by (simp add: detectCollisions_def rowContacts_def Let_def)

lemma subStep_lone [simp]: "subStep [b] = [b]"
  by (simp add: subStep_def resolveCollisions_def)

lemma subSteps_lone [simp]: "(subStep ^^ n) [b] = [b]"
  by (induction n) simp_all

lemma update_lone:
  "update dt [b] = [updateSleepState1 dt (integrate1 dt (applyForces1 dt b))]"
  by (simp add: update_def updateSleepState_def integrate_def applyForces_def)

lemma forces_integrate_awake:
  assumes "\<not> isStatic b" "\<not> isSleeping b" "mass b > 0"
  shows "position (integrate1 TIME_STEP (applyForces1 TIME_STEP b))
           = fst (trajStep (position b, velocity b))"
    and "velocity (integrate1 TIME_STEP (applyForces1 TIME_STEP b))
           = snd (trajStep (position b, velocity b))"
  using assms by (simp_all add: integrate1_def applyForces1_def trajStep_def Let_def)

lemma forces_integrate_fields:
  "isStatic (integrate1 dt (applyForces1 dt b)) = isStatic b"
  "mass (integrate1 dt (applyForces1 dt b)) = mass b"
  "isSleeping (integrate1 dt (applyForces1 dt b)) = isSleeping b"
  "canSleep (integrate1 dt (applyForces1 dt b)) = canSleep b"
  "sleepTimer (integrate1 dt (applyForces1 dt b)) = sleepTimer b"
  by (simp_all add: integrate1_def applyForces1_def Let_def)

lemma updateSleepState1_fields:
  "position (updateSleepState1 dt e) = position e"
  "isStatic (updateSleepState1 dt e) = isStatic e"
  "mass (updateSleepState1 dt e) = mass e"
  "canSleep (updateSleepState1 dt e) = canSleep e"
  by (simp_all add: updateSleepState1_def Let_def wake_def)

lemma updateSleepState1_awake_velocity:
  "\<not> isSleeping (updateSleepState1 dt e) \<Longrightarrow> velocity (updateSleepState1 dt e) = velocity e"
  by (auto simp add: updateSleepState1_def Let_def wake_def split: if_splits)

text \<open>The state of a lone entity after a number of ticks.\<close>

lemma updates_lone:
  "\<exists>b'. (update dt ^^ n) [b] = [b']"
  by (induction n) (auto simp add: update_lone)

lemma lone_ticks:
  assumes "\<not> isStatic b" and "mass b > 0"
    and "\<forall>i<k. \<not> isSleeping (hd ((update TIME_STEP ^^ i) [b]))"
    and "j \<le> k"
  shows "\<not> isStatic (hd ((update TIME_STEP ^^ j) [b])) \<and>
         mass (hd ((update TIME_STEP ^^ j) [b])) = mass b \<and>
         position (hd ((update TIME_STEP ^^ j) [b]))
           = fst ((trajStep ^^ j) (position b, velocity b)) \<and>
         (\<not> isSleeping (hd ((update TIME_STEP ^^ j) [b])) \<longrightarrow>
            velocity (hd ((update TIME_STEP ^^ j) [b]))
              = snd ((trajStep ^^ j) (position b, velocity b)))"
  using assms(4)
proof (induction j)
  case 0
  show ?case using assms(1) by simp
next
  case (Suc j)
  obtain c where c: "(update TIME_STEP ^^ j) [b] = [c]" using updates_lone by blast
  have jk: "j < k" using Suc.prems by simp
  then have aw: "\<not> isSleeping c" using assms(3) c by auto
  have ih: "\<not> isStatic c" "mass c = mass b"
    "position c = fst ((trajStep ^^ j) (position b, velocity b))"
    "velocity c = snd ((trajStep ^^ j) (position b, velocity b))"
    using Suc.IH jk aw c by simp_all
  have mc: "mass c > 0" using ih(2) assms(2) by simp
  have pv: "(position c, velocity c) = (trajStep ^^ j) (position b, velocity b)"
    using ih(3,4) by simp
  let ?d = "integrate1 TIME_STEP (applyForces1 TIME_STEP c)"
  have n: "(update TIME_STEP ^^ Suc j) [b] = [updateSleepState1 TIME_STEP ?d]"
    by (simp add: c update_lone)
  show ?case
    unfolding n
    using forces_integrate_awake [OF ih(1) aw mc] ih(1,2)
    by (simp add: updateSleepState1_fields updateSleepState1_awake_velocity
          forces_integrate_fields pv)
qed

lemma slow_then_fast:
  assumes "lenSq (Vec2 x y) < 4"
  shows "\<not> lenSq (mul (add (Vec2 x y) (Vec2 0 (GRAVITY * TIME_STEP))) FRICTION) < 4"
proof -
  have "y * y \<le> x * x + y * y" by simp
  also have "\<dots> < 4" using assms by (simp add: lenSq_def)
  finally have "y * y < 2 * 2" by simp
  have "y > - 2"
  proof (rule ccontr)
    assume "\<not> y > - 2"
    then have "2 \<le> - y" by simp
    then have "2 * 2 \<le> (- y) * (- y)" by (intro mult_mono) simp_all
    then show False using \<open>y * y < 2 * 2\<close> by simp
  qed
  define w where "w = (y + 981 / 60) * (98 / 100)"
  have "w \<ge> 2" using \<open>y > - 2\<close> by (simp add: w_def)
  then have "2 * 2 \<le> w * w" by (intro mult_mono) simp_all
  moreover have "0 \<le> (x * (98 / 100)) * (x * (98 / 100))" by simp
  ultimately have "4 \<le> (x * (98 / 100)) * (x * (98 / 100)) + w * w" by linarith
  then show ?thesis
    by (simp add: lenSq_def GRAVITY_def GRAVITY_ACCEL_def pixelsPerMeter_def TIME_STEP_def
          FRICTION_def w_def)
qed


text \<open>
  The sleep update can put a lone entity to sleep only after a tick that leaves it
  slower than \<open>MIN_VELOCITY_FOR_SLEEP\<close>, and gravity makes the tick after such a tick
  a fast one. So an entity that cannot sleep, or whose sleep timer is at least two
  ticks from the delay (it is \<open>0\<close> after \<open>launch\<close>), stays awake for ever.
\<close>

lemma awakeInv_tick:
  assumes "awakeInv c"
  shows "awakeInv (updateSleepState1 TIME_STEP (integrate1 TIME_STEP (applyForces1 TIME_STEP c)))"
proof -
  let ?d = "integrate1 TIME_STEP (applyForces1 TIME_STEP c)"
  obtain x y where v: "velocity c = Vec2 x y" by (cases "velocity c")
  have c: "\<not> isStatic c" "mass c > 0" "\<not> isSleeping c" using assms by (simp_all add: awakeInv_def)
  have vd: "velocity ?d = mul (add (Vec2 x y) (Vec2 0 (GRAVITY * TIME_STEP))) FRICTION"
    using c by (simp add: integrate1_def applyForces1_def v)
  have fd: "\<not> isStatic ?d" "mass ?d > 0" "\<not> isSleeping ?d" "canSleep ?d = canSleep c"
    "sleepTimer ?d = sleepTimer c"
    using c by (simp_all add: forces_integrate_fields)
  show ?thesis
  proof (cases "canSleep c")
    case False
    then have "updateSleepState1 TIME_STEP ?d = ?d" using fd by (simp add: updateSleepState1_def)
    then show ?thesis using fd False by (simp add: awakeInv_def)
  next
    case True
    show ?thesis
    proof (cases "lenSq (velocity ?d) < 4")
      case slow: True
      have "\<not> lenSq (velocity c) < 4" using slow slow_then_fast [of x y] vd v by auto
      then have t: "sleepTimer c < 58 * TIME_STEP" using assms True by (auto simp add: awakeInv_def)
      then have t': "sleepTimer c + TIME_STEP < 59 * TIME_STEP" by (simp add: TIME_STEP_def)
      then have "\<not> sleepTimer c + TIME_STEP \<ge> SLEEP_DELAY_FRAMES * TIME_STEP"
        by (simp add: TIME_STEP_def SLEEP_DELAY_FRAMES_def)
      then have "updateSleepState1 TIME_STEP ?d = ?d\<lparr>sleepTimer := sleepTimer c + TIME_STEP\<rparr>"
        using fd True slow
        by (simp add: updateSleepState1_def Let_def MIN_VELOCITY_FOR_SLEEP_def)
      then show ?thesis using fd slow t' by (simp add: awakeInv_def)
    next
      case fast: False
      then have "updateSleepState1 TIME_STEP ?d = wake ?d"
        using fd True by (simp add: updateSleepState1_def Let_def MIN_VELOCITY_FOR_SLEEP_def)
      then show ?thesis using fd by (simp add: awakeInv_def wake_def TIME_STEP_def)
    qed
  qed
qed

lemma awakeInv_ticks:
  "awakeInv b \<Longrightarrow> awakeInv (hd ((update TIME_STEP ^^ i) [b]))"
proof (induction i)
  case 0
  then show ?case by simp
next
  case (Suc i)
  obtain c where c: "(update TIME_STEP ^^ i) [b] = [c]" using updates_lone by blast
  then show ?case using Suc awakeInv_tick [of c] by (simp add: update_lone)
qed

lemma lone_stays_awake:
  assumes "\<not> isStatic b" and "mass b > 0" and "\<not> isSleeping b"
    and "\<not> canSleep b \<or> sleepTimer b < 58 * TIME_STEP"
  shows "\<not> isSleeping (hd ((update TIME_STEP ^^ i) [b]))"
proof -
  have "awakeInv b" using assms by (auto simp add: awakeInv_def)
  then show ?thesis using awakeInv_ticks [of b i] by (simp add: awakeInv_def)
qed

text \<open>
  The loop of the predictor, started in the state that \<open>i\<close> iterations leave: when it
  ends, its point and velocity are the ones that as many iterations of the loop body
  give as have run, every third iterate up to there is in \<open>pts\<close> at its index, and the
  loop has run to its bound unless the point is below the ground line or outside the
  horizontal bounds.
\<close>

lemma simLoop_state:
  fixes p v :: "real vec2"
  defines "T \<equiv> \<lambda>j. (trajStep ^^ j) (p, v)"
  assumes "simLoop w h steps i pos vel pts = (i', pos', vel', pts')"
    and "(pos, vel) = T i" and "i \<le> steps"
    and "length pts = Suc ((i + 2) div 3)" and "pts ! 0 = p"
    and "\<forall>m. 3 * m < i \<longrightarrow> pts ! Suc m = fst (T (3 * m + 1))"
    and "n = (if i' < steps then i' + 1 else i')"
  shows "n \<le> steps \<and> (pos', vel') = T n \<and> pts' ! 0 = p \<and>
         (\<forall>m. 3 * m < n \<longrightarrow> pts' ! Suc m = fst (T (3 * m + 1))) \<and>
         (n = steps \<or> vec_y pos' > h - 50 \<or> vec_x pos' < - 100 \<or> vec_x pos' > w + 100)"
  using assms(2-)
proof (induction w h steps i pos vel pts rule: simLoop.induct)
  case (1 w h steps i pos vel pts)
  show ?case
  proof (cases "i < steps")
    case False
    then have "simLoop w h steps i pos vel pts = (i, pos, vel, pts)"
      by (subst simLoop.simps) simp
    then have e: "i' = i" "pos' = pos" "vel' = vel" "pts' = pts" using "1.prems"(1) by simp_all
    have "i = steps" using False "1.prems"(3) by simp
    then show ?thesis using e "1.prems" by simp
  next
    case lt: True
    obtain pos1 vel1 where st: "trajStep (pos, vel) = (pos1, vel1)"
      by (cases "trajStep (pos, vel)")
    define pts1 where "pts1 = (if i mod 3 = 0 then pts @ [Vec2 (vec_x pos1) (vec_y pos1)] else pts)"
    have T1: "(pos1, vel1) = T (i + 1)"
      using "1.prems"(2) st by (simp add: T_def)
    have len1: "length pts1 = Suc ((i + 1 + 2) div 3)"
      using "1.prems"(4) unfolding pts1_def by (simp; presburger)
    have lenp: "\<And>m. 3 * m < i \<Longrightarrow> Suc m < length pts"
      using "1.prems"(4) by (simp; presburger)
    have z1: "pts1 ! 0 = p"
      using "1.prems"(4,5) by (simp add: pts1_def nth_append)
    have n1: "pts1 ! Suc m = fst (T (3 * m + 1))" if "3 * m < i + 1" for m
    proof (cases "3 * m < i")
      case True
      then show ?thesis
        using "1.prems"(6) lenp [OF True] by (simp add: pts1_def nth_append)
    next
      case False
      then have eq: "i = 3 * m" using that by simp
      then have "Suc m = length pts" using "1.prems"(4) by (simp; presburger)
      then show ?thesis using eq T1 [symmetric] by (simp add: pts1_def nth_append)
    qed
    have len1': "\<And>m. 3 * m < i + 1 \<Longrightarrow> Suc m < length pts1"
      using len1 by (simp; presburger)
    show ?thesis
    proof (cases "vec_y pos1 > h - 50")
      case ground: True
      define pts2 where "pts2 = (if length pts1 = 0 \<or> vec_y (last pts1) < h - 50
                                 then pts1 @ [Vec2 (vec_x pos1) (h - 50)] else pts1)"
      have "simLoop w h steps i pos vel pts = (i, pos1, vel1, pts2)"
        using lt ground by (subst simLoop.simps) (simp add: st Let_def pts1_def pts2_def)
      then have e: "i' = i" "pos' = pos1" "vel' = vel1" "pts' = pts2"
        using "1.prems"(1) by simp_all
      have n: "n = i + 1" using "1.prems"(7) e lt by simp
      have z2: "pts2 ! 0 = p" using z1 len1 by (simp add: pts2_def nth_append)
      have n2: "pts2 ! Suc m = fst (T (3 * m + 1))" if "3 * m < i + 1" for m
        using n1 [OF that] len1' [OF that] by (simp add: pts2_def nth_append)
      show ?thesis using n e lt T1 z2 n2 ground by simp
    next
      case noground: False
      show ?thesis
      proof (cases "vec_x pos1 < - 100 \<or> vec_x pos1 > w + 100")
        case off: True
        have "simLoop w h steps i pos vel pts = (i, pos1, vel1, pts1)"
          using lt noground off by (subst simLoop.simps) (simp add: st Let_def pts1_def)
        then have e: "i' = i" "pos' = pos1" "vel' = vel1" "pts' = pts1"
          using "1.prems"(1) by simp_all
        have n: "n = i + 1" using "1.prems"(7) e lt by simp
        show ?thesis using n e lt T1 z1 n1 off by auto
      next
        case inside: False
        have rec: "simLoop w h steps i pos vel pts = simLoop w h steps (i + 1) pos1 vel1 pts1"
          using lt noground inside by (subst simLoop.simps) (simp add: st Let_def pts1_def)
        have r: "simLoop w h steps (i + 1) pos1 vel1 pts1 = (i', pos', vel', pts')"
          using rec "1.prems"(1) by simp
        have le: "i + 1 \<le> steps" using lt by simp
        have all1: "\<forall>m. 3 * m < i + 1 \<longrightarrow> pts1 ! Suc m = fst (T (3 * m + 1))"
          using n1 by blast
        show ?thesis
          by (rule "1.IH" [OF lt refl refl st [symmetric] pts1_def noground inside r T1 le len1 z1
                all1 "1.prems"(7)])
      qed
    qed
  qed
qed


text \<open>
  Claim C1. A lone entity that is not static, has positive mass and is not asleep at
  the start of any of the first \<open>steps\<close> ticks, and the predictor started with the
  entity's position and velocity and the bound \<open>steps\<close>. The predictor's loop makes
  \<open>simulatedSteps\<close> internal steps, all \<open>steps\<close> of them unless its point has then
  crossed the ground line or left the horizontal bounds; the point it has reached then
  is the position of the entity after as many ticks of \<open>update\<close> with \<open>TIME_STEP\<close>;
  and in the list that \<open>simulateTrajectory\<close> returns, the first point is the start
  position and the point after it at index \<open>m + 1\<close>, recorded in the internal step
  \<open>3 * m + 1\<close>, is the position of the entity after \<open>3 * m + 1\<close> ticks.
\<close>

theorem predictor_matches_stepper:
  assumes "\<not> isStatic b" and "mass b > 0"
    and "\<forall>i<steps. \<not> isSleeping (hd ((update TIME_STEP ^^ i) [b]))"
  shows "simulatedSteps w h (position b) (velocity b) steps \<le> steps \<and>
         simulatedPoint w h (position b) (velocity b) steps
           = position (hd ((update TIME_STEP ^^ simulatedSteps w h (position b) (velocity b) steps)
                            [b])) \<and>
         (simulatedSteps w h (position b) (velocity b) steps = steps \<or>
          vec_y (simulatedPoint w h (position b) (velocity b) steps) > h - 50 \<or>
          vec_x (simulatedPoint w h (position b) (velocity b) steps) < - 100 \<or>
          vec_x (simulatedPoint w h (position b) (velocity b) steps) > w + 100) \<and>
         simulateTrajectory w h (position b) (velocity b) steps ! 0 = position b \<and>
         (\<forall>m. 3 * m < simulatedSteps w h (position b) (velocity b) steps \<longrightarrow>
            simulateTrajectory w h (position b) (velocity b) steps ! Suc m
              = position (hd ((update TIME_STEP ^^ (3 * m + 1)) [b])))"
proof -
  obtain i' pos' vel' pts' where
    r: "simLoop w h steps 0 (position b) (velocity b)
          [Vec2 (vec_x (position b)) (vec_y (position b))] = (i', pos', vel', pts')"
    by (cases "simLoop w h steps 0 (position b) (velocity b)
                 [Vec2 (vec_x (position b)) (vec_y (position b))]")
  define n where "n = (if i' < steps then i' + 1 else i')"
  have sn: "simulatedSteps w h (position b) (velocity b) steps = n"
    unfolding simulatedSteps_def r n_def by simp
  have sp: "simulatedPoint w h (position b) (velocity b) steps = pos'"
    unfolding simulatedPoint_def r by simp
  have st: "simulateTrajectory w h (position b) (velocity b) steps = pts'"
    unfolding simulateTrajectory_def r by simp
  have s: "n \<le> steps \<and> (pos', vel') = (trajStep ^^ n) (position b, velocity b) \<and>
           pts' ! 0 = position b \<and>
           (\<forall>m. 3 * m < n \<longrightarrow>
              pts' ! Suc m = fst ((trajStep ^^ (3 * m + 1)) (position b, velocity b))) \<and>
           (n = steps \<or> vec_y pos' > h - 50 \<or> vec_x pos' < - 100 \<or> vec_x pos' > w + 100)"
    by (rule simLoop_state [OF r _ _ _ _ _ n_def]) simp_all
  have le: "n \<le> steps" using s by simp
  have "fst (pos', vel') = fst ((trajStep ^^ n) (position b, velocity b))"
    using s by simp
  then have p: "pos' = position (hd ((update TIME_STEP ^^ n) [b]))"
    using lone_ticks [OF assms le] by simp
  have q: "pts' ! Suc m = position (hd ((update TIME_STEP ^^ (3 * m + 1)) [b]))"
    if "3 * m < n" for m
  proof -
    have "3 * m + 1 \<le> steps" using that le by simp
    then show ?thesis using lone_ticks [OF assms, of "3 * m + 1"] s that by simp
  qed
  show ?thesis
    unfolding sn sp st using s p q by blast
qed

theorem predictor_matches_stepper_witness:
  "\<not> isStatic launched \<and> mass launched > 0 \<and>
   \<not> isSleeping (hd ((update TIME_STEP ^^ 0) [launched])) \<and>
   \<not> isSleeping (hd ((update TIME_STEP ^^ 1) [launched])) \<and>
   \<not> isSleeping (hd ((update TIME_STEP ^^ 2) [launched])) \<and>
   \<not> isSleeping (hd ((update TIME_STEP ^^ 3) [launched])) \<and>
   \<not> isSleeping (hd ((update TIME_STEP ^^ 4) [launched])) \<and>
   simulatedSteps 1280 720 (Vec2 160 555) (Vec2 600 (-600)) 5 = 5 \<and>
   simulateTrajectory 1280 720 (Vec2 160 555) (Vec2 600 (-600)) 5
     = [Vec2 160 555, Vec2 (849 / 5) (10909341 / 20000),
        Vec2 (123774751 / 625000) (1298945050909 / 2500000000)] \<and>
   position (hd ((update TIME_STEP ^^ 1) [launched])) = Vec2 (849 / 5) (10909341 / 20000) \<and>
   position (hd ((update TIME_STEP ^^ 4) [launched]))
     = Vec2 (123774751 / 625000) (1298945050909 / 2500000000) \<and>
   simulatedPoint 1280 720 (Vec2 160 555) (Vec2 600 (-600)) 5
     = Vec2 (6471212799 / 31250000) (63977713744541 / 125000000000) \<and>
   position (hd ((update TIME_STEP ^^ 5) [launched]))
     = Vec2 (6471212799 / 31250000) (63977713744541 / 125000000000) \<and>
   simulatedSteps 1280 500 (Vec2 160 555) (Vec2 600 (-600)) 5 = 1 \<and>
   simulatedPoint 1280 500 (Vec2 160 555) (Vec2 600 (-600)) 5
     = Vec2 (849 / 5) (10909341 / 20000) \<and>
   simulateTrajectory 1280 500 (Vec2 160 555) (Vec2 600 (-600)) 5
     = [Vec2 160 555, Vec2 (849 / 5) (10909341 / 20000)]"
proof -
  have f: "\<not> isStatic launched" "mass launched > 0" "\<not> isSleeping launched"
    "\<not> canSleep launched \<or> sleepTimer launched < 58 * TIME_STEP"
    "position launched = Vec2 160 555" "velocity launched = Vec2 600 (-600)"
    by (simp_all add: launched_def newBird_def entity.truncate_def BIRD_MASS_def TIME_STEP_def)
  have aw: "\<not> isSleeping (hd ((update TIME_STEP ^^ i) [launched]))" for i
    by (rule lone_stays_awake [OF f(1-4)])
  have h: "\<forall>i<5. \<not> isSleeping (hd ((update TIME_STEP ^^ i) [launched]))"
    using aw by simp
  have l: "simLoop 1280 720 5 0 (Vec2 160 555) (Vec2 600 (-600)) [Vec2 160 555]
             = (5, Vec2 (6471212799 / 31250000) (63977713744541 / 125000000000),
                Vec2 (847425747 / 1562500) (- (2908616402727 / 6250000000)),
                [Vec2 160 555, Vec2 (849 / 5) (10909341 / 20000),
                 Vec2 (123774751 / 625000) (1298945050909 / 2500000000)])"
  proof -
    note k = trajStep_def Let_def GRAVITY_def GRAVITY_ACCEL_def pixelsPerMeter_def TIME_STEP_def
      FRICTION_def
    have "simLoop 1280 720 5 0 (Vec2 160 555) (Vec2 600 (-600)) [Vec2 160 555]
            = simLoop 1280 720 5 1 (Vec2 (849 / 5) (10909341 / 20000)) (Vec2 588 (- (571977 / 1000)))
                [Vec2 160 555, Vec2 (849 / 5) (10909341 / 20000)]"
      by (subst simLoop.simps) (simp add: k)
    also have "\<dots> = simLoop 1280 720 5 2 (Vec2 (44851 / 250) (536391809 / 1000000))
                       (Vec2 (14406 / 25) (- (27225723 / 50000)))
                       [Vec2 160 555, Vec2 (849 / 5) (10909341 / 20000)]"
      by (subst simLoop.simps) (simp add: k numeral_2_eq_2 [symmetric])
    also have "\<dots> = simLoop 1280 720 5 3 (Vec2 (2360199 / 12500) (26388256141 / 50000000))
                       (Vec2 (352947 / 625) (- (1294002927 / 2500000)))
                       [Vec2 160 555, Vec2 (849 / 5) (10909341 / 20000)]"
      by (subst simLoop.simps) (simp add: k)
    also have "\<dots> = simLoop 1280 720 5 4 (Vec2 (123774751 / 625000) (1298945050909 / 2500000000))
                       (Vec2 (17294403 / 31250) (- (61403268423 / 125000000)))
                       [Vec2 160 555, Vec2 (849 / 5) (10909341 / 20000),
                        Vec2 (123774751 / 625000) (1298945050909 / 2500000000)]"
      by (subst simLoop.simps) (simp add: k)
    also have "\<dots> = simLoop 1280 720 5 5
                       (Vec2 (6471212799 / 31250000) (63977713744541 / 125000000000))
                       (Vec2 (847425747 / 1562500) (- (2908616402727 / 6250000000)))
                       [Vec2 160 555, Vec2 (849 / 5) (10909341 / 20000),
                        Vec2 (123774751 / 625000) (1298945050909 / 2500000000)]"
      by (subst simLoop.simps) (simp add: k)
    also have "\<dots> = (5, Vec2 (6471212799 / 31250000) (63977713744541 / 125000000000),
                  Vec2 (847425747 / 1562500) (- (2908616402727 / 6250000000)),
                  [Vec2 160 555, Vec2 (849 / 5) (10909341 / 20000),
                   Vec2 (123774751 / 625000) (1298945050909 / 2500000000)])"
      by (subst simLoop.simps) simp
    finally show ?thesis .
  qed
  have l': "simLoop 1280 500 5 0 (Vec2 160 555) (Vec2 600 (-600)) [Vec2 160 555]
              = (0, Vec2 (849 / 5) (10909341 / 20000),
                 Vec2 588 (- (571977 / 1000)),
                 [Vec2 160 555, Vec2 (849 / 5) (10909341 / 20000)])"
    by (subst simLoop.simps)
       (simp add: trajStep_def Let_def GRAVITY_def GRAVITY_ACCEL_def pixelsPerMeter_def
          TIME_STEP_def FRICTION_def)
  have n: "simulatedSteps 1280 720 (Vec2 160 555) (Vec2 600 (-600)) 5 = 5"
    by (simp add: simulatedSteps_def l)
  have t: "simulateTrajectory 1280 720 (Vec2 160 555) (Vec2 600 (-600)) 5
             = [Vec2 160 555, Vec2 (849 / 5) (10909341 / 20000),
                Vec2 (123774751 / 625000) (1298945050909 / 2500000000)]"
    by (simp add: simulateTrajectory_def l)
  have p: "simulatedPoint 1280 720 (Vec2 160 555) (Vec2 600 (-600)) 5
             = Vec2 (6471212799 / 31250000) (63977713744541 / 125000000000)"
    by (simp add: simulatedPoint_def l)
  have n': "simulatedSteps 1280 500 (Vec2 160 555) (Vec2 600 (-600)) 5 = 1"
    by (simp add: simulatedSteps_def l')
  have p': "simulatedPoint 1280 500 (Vec2 160 555) (Vec2 600 (-600)) 5
              = Vec2 (849 / 5) (10909341 / 20000)"
    by (simp add: simulatedPoint_def l')
  have t': "simulateTrajectory 1280 500 (Vec2 160 555) (Vec2 600 (-600)) 5
              = [Vec2 160 555, Vec2 (849 / 5) (10909341 / 20000)]"
    by (simp add: simulateTrajectory_def l')
  note c = predictor_matches_stepper [OF f(1,2) h, where w = 1280 and h = 720,
      unfolded f(5,6) n t p]
  have q: "3 * m < 5 \<Longrightarrow>
             [Vec2 160 555, Vec2 (849 / 5) (10909341 / 20000),
              Vec2 (123774751 / 625000) (1298945050909 / 2500000000)] ! Suc m
               = position (hd ((update TIME_STEP ^^ (3 * m + 1)) [launched]))" for m :: nat
    using c by blast
  have c1: "position (hd ((update TIME_STEP ^^ 1) [launched])) = Vec2 (849 / 5) (10909341 / 20000)"
    using q [of 0] by simp
  have c4: "position (hd ((update TIME_STEP ^^ 4) [launched]))
              = Vec2 (123774751 / 625000) (1298945050909 / 2500000000)"
    using q [of 1] by simp
  have c5: "position (hd ((update TIME_STEP ^^ 5) [launched]))
              = Vec2 (6471212799 / 31250000) (63977713744541 / 125000000000)"
    using c by simp
  show ?thesis
    using f(1,2) aw [of 0] aw [of 1] aw [of 2] aw [of 3] aw [of 4] n t p c1 c4 c5 n' p' t'
    by blast
qed

section \<open>The guards against NaN\<close>

lemma wake_other_fields [simp]:
  "hp (wake e) = hp e" "damageThreshold (wake e) = damageThreshold e"
  by (simp_all add: wake_def)

lemma onCollisionJS_fields [simp]:
  "position (onCollisionJS m e) = position e" "velocity (onCollisionJS m e) = velocity e"
  by (simp_all add: onCollisionJS_def takeDamageJS_def destroy_def wake_def Let_def)

lemma notifyJS_fields:
  "length (notifyJS c m es) = length es"
  "position (notifyJS c m es ! k) = position (es ! k)"
  "velocity (notifyJS c m es ! k) = velocity (es ! k)"
  by (simp_all add: notifyJS_def Let_def nth_upd)

lemma revertPosition_fields:
  "length (revertPosition i old es) = length es"
  "velocity (revertPosition i old es ! k) = velocity (es ! k)"
  "position (revertPosition i old es ! k) =
     (if k = i \<and> i < length es \<and> hasNaN (position (es ! i)) then old else position (es ! k))"
  by (auto simp add: revertPosition_def nth_upd)

lemma revertVelocity_fields:
  "length (revertVelocity i old es) = length es"
  "position (revertVelocity i old es ! k) = position (es ! k)"
  "velocity (revertVelocity i old es ! k) =
     (if k = i \<and> i < length es \<and> hasNaN (velocity (es ! i)) then old else velocity (es ! k))"
  by (auto simp add: revertVelocity_def nth_upd)

lemma applyCorrection_fields:
  "length (applyCorrection c ia ib v es) = length es"
  "velocity (applyCorrection c ia ib v es ! k) = velocity (es ! k)"
  "k \<noteq> ref_a c \<Longrightarrow> k \<noteq> ref_b c \<Longrightarrow>
     position (applyCorrection c ia ib v es ! k) = position (es ! k)"
  by (simp_all add: applyCorrection_def Let_def nth_upd)

lemma applyImpulse_other:
  "k \<noteq> ref_a c \<Longrightarrow> k \<noteq> ref_b c \<Longrightarrow>
     velocity (applyImpulse c ia ib v es ! k) = velocity (es ! k)"
  by (simp add: applyImpulse_def Let_def nth_upd)

text \<open>
  A field that goes through the two guards is the saved value or has no \<open>NaN\<close>
  component, when the saved values are the ones of the two entities.
\<close>

lemma guarded_position:
  assumes "k < length es"
    and "k \<noteq> ref_a c \<Longrightarrow> k \<noteq> ref_b c \<Longrightarrow> position (es ! k) = p"
    and "k = ref_a c \<Longrightarrow> oldA = p" and "k = ref_b c \<Longrightarrow> oldB = p"
  shows "position (revertPosition (ref_b c) oldB (revertPosition (ref_a c) oldA es) ! k) = p \<or>
         \<not> hasNaN (position (revertPosition (ref_b c) oldB (revertPosition (ref_a c) oldA es) ! k))"
  using assms by (auto simp add: revertPosition_fields)

lemma guarded_velocity:
  assumes "k < length es"
    and "k \<noteq> ref_a c \<Longrightarrow> k \<noteq> ref_b c \<Longrightarrow> velocity (es ! k) = p"
    and "k = ref_a c \<Longrightarrow> oldA = p" and "k = ref_b c \<Longrightarrow> oldB = p"
  shows "velocity (revertVelocity (ref_b c) oldB (revertVelocity (ref_a c) oldA es) ! k) = p \<or>
         \<not> hasNaN (velocity (revertVelocity (ref_b c) oldB (revertVelocity (ref_a c) oldA es) ! k))"
  using assms by (auto simp add: revertVelocity_fields)

lemma resolveCollisionJS_length [simp]: "length (resolveCollisionJS c es) = length es"
  by (simp add: resolveCollisionJS_def Let_def notifyJS_fields revertVelocity_fields
        revertPosition_fields applyCorrection_fields)

lemma resolveCollisionJS_position:
  assumes "k < length es"
  shows "position (resolveCollisionJS c es ! k) = position (es ! k) \<or>
         \<not> hasNaN (position (resolveCollisionJS c es ! k))"
proof -
  define es1 where "es1 = wakeBoth c es"
  define ia where "ia = invMassJS (es1 ! ref_a c)"
  define ib where "ib = invMassJS (es1 ! ref_b c)"
  define corr where "corr = mul (normal c)
      ((jsMax (penetration c - Fin 0.1) 0 / orElseJS (ia + ib) (Fin (1 / 10 ^ 9))) * Fin 0.8)"
  define es2 where "es2 = applyCorrection c ia ib corr es1"
  define es4 where "es4 = revertPosition (ref_b c) (position (es1 ! ref_b c))
                            (revertPosition (ref_a c) (position (es1 ! ref_a c)) es2)"
  have p1: "position (es1 ! j) = position (es ! j)" for j
    by (simp add: es1_def wakeBoth_fields)
  have l2: "k < length es2" using assms by (simp add: es2_def es1_def applyCorrection_fields)
  have o: "k \<noteq> ref_a c \<Longrightarrow> k \<noteq> ref_b c \<Longrightarrow> position (es2 ! k) = position (es ! k)"
    by (simp add: es2_def applyCorrection_fields p1)
  have g: "position (es4 ! k) = position (es ! k) \<or> \<not> hasNaN (position (es4 ! k))"
    unfolding es4_def by (rule guarded_position [OF l2 o]) (simp_all add: p1)
  have "position (resolveCollisionJS c es ! k) = position (es1 ! k) \<or>
        position (resolveCollisionJS c es ! k) = position (es4 ! k)"
    unfolding resolveCollisionJS_def Let_def
    unfolding es1_def [symmetric] ia_def [symmetric] ib_def [symmetric]
    unfolding corr_def [symmetric] es2_def [symmetric]
    unfolding es4_def [symmetric]
    by (simp add: notifyJS_fields revertVelocity_fields applyImpulse_fields)
  then show ?thesis using g p1 by auto
qed

lemma resolveCollisionJS_velocity:
  assumes "k < length es"
  shows "velocity (resolveCollisionJS c es ! k) = velocity (es ! k) \<or>
         \<not> hasNaN (velocity (resolveCollisionJS c es ! k))"
proof -
  define es1 where "es1 = wakeBoth c es"
  define ia where "ia = invMassJS (es1 ! ref_a c)"
  define ib where "ib = invMassJS (es1 ! ref_b c)"
  define corr where "corr = mul (normal c)
      ((jsMax (penetration c - Fin 0.1) 0 / orElseJS (ia + ib) (Fin (1 / 10 ^ 9))) * Fin 0.8)"
  define es2 where "es2 = applyCorrection c ia ib corr es1"
  define es4 where "es4 = revertPosition (ref_b c) (position (es1 ! ref_b c))
                            (revertPosition (ref_a c) (position (es1 ! ref_a c)) es2)"
  define es7 where "es7 imp = revertVelocity (ref_b c) (velocity (es4 ! ref_b c))
                            (revertVelocity (ref_a c) (velocity (es4 ! ref_a c))
                               (applyImpulse c ia ib imp es4))" for imp
  have v1: "velocity (es1 ! j) = velocity (es ! j)" for j
    by (simp add: es1_def wakeBoth_fields)
  have v4: "velocity (es4 ! j) = velocity (es ! j)" for j
    by (simp add: es4_def es2_def revertPosition_fields applyCorrection_fields v1)
  have l4: "length es4 = length es"
    by (simp add: es4_def es2_def es1_def revertPosition_fields applyCorrection_fields)
  have g: "velocity (es7 imp ! k) = velocity (es ! k) \<or> \<not> hasNaN (velocity (es7 imp ! k))"
    for imp
    unfolding es7_def
  proof (rule guarded_velocity)
    show "k < length (applyImpulse c ia ib imp es4)" using assms l4 by simp
    show "velocity (applyImpulse c ia ib imp es4 ! k) = velocity (es ! k)"
      if "k \<noteq> ref_a c" "k \<noteq> ref_b c"
      using that by (simp add: applyImpulse_other v4)
    show "velocity (es4 ! ref_a c) = velocity (es ! k)" if "k = ref_a c"
      using that by (simp add: v4)
    show "velocity (es4 ! ref_b c) = velocity (es ! k)" if "k = ref_b c"
      using that by (simp add: v4)
  qed
  have "velocity (resolveCollisionJS c es ! k) = velocity (es1 ! k) \<or>
        velocity (resolveCollisionJS c es ! k) = velocity (es4 ! k) \<or>
        (\<exists>imp. velocity (resolveCollisionJS c es ! k) = velocity (es7 imp ! k))"
    unfolding resolveCollisionJS_def Let_def
    unfolding es1_def [symmetric] ia_def [symmetric] ib_def [symmetric]
    unfolding corr_def [symmetric] es2_def [symmetric]
    unfolding es4_def [symmetric]
    unfolding es7_def [symmetric]
    by (auto simp add: notifyJS_fields)
  then show ?thesis using g v1 v4 by metis
qed

lemma resolveCollisionsJS_length [simp]: "length (resolveCollisionsJS cs es) = length es"
  unfolding resolveCollisionsJS_def by (induction cs arbitrary: es) simp_all

text \<open>
  So the solver never brings a \<open>NaN\<close> into the positions and velocities of a world that
  has none.
\<close>

lemma resolveCollisionsJS_keeps_NaN_free:
  assumes "\<forall>k<length es. \<not> hasNaN (position (es ! k)) \<and> \<not> hasNaN (velocity (es ! k))"
  shows "\<forall>k<length es. \<not> hasNaN (position (resolveCollisionsJS cs es ! k)) \<and>
                        \<not> hasNaN (velocity (resolveCollisionsJS cs es ! k))"
  using assms unfolding resolveCollisionsJS_def
proof (induction cs arbitrary: es)
  case Nil
  then show ?case by simp
next
  case (Cons c cs)
  have "\<forall>k<length (resolveCollisionJS c es).
          \<not> hasNaN (position (resolveCollisionJS c es ! k)) \<and>
          \<not> hasNaN (velocity (resolveCollisionJS c es ! k))"
    using Cons.prems resolveCollisionJS_position [of _ es c]
      resolveCollisionJS_velocity [of _ es c]
    by (metis resolveCollisionJS_length)
  from Cons.IH [OF this] show ?case by simp
qed

lemmas jsnum_eval =
  zero_jsnum_def one_jsnum_def minus_jsnum_def inverse_jsnum_def jsLessEq_def isNaN_def
  jsMax_def jsMin_def orElseJS_def hasNaN_def lenJS_def lenSq_def invMassJS_def
  takeDamageJS_def onCollisionJS_def notifyJS_def revertPosition_def revertVelocity_def
  applyCorrection_def applyImpulse_def wakeBoth_def wake_def destroy_def zero_def
  newEntityJS_def Let_def

text \<open>The solver in terms of these values: its three exits.\<close>

lemma resolveCollisionJS_stages:
  "resolveCollisionJS c es =
     (if totalInvMassJS c es = Fin 0 then wakeBoth c es
      else if jsLess 0 (velAlongNormalJS c es) then afterPositionGuardsJS c es
      else notifyJS c (lenJS (impulseVecJS c es)) (afterVelocityGuardsJS c es))"
  unfolding resolveCollisionJS_def totalInvMassJS_def afterCorrectionJS_def
    afterPositionGuardsJS_def velAlongNormalJS_def impulseVecJS_def afterImpulseJS_def
    afterVelocityGuardsJS_def Let_def
  by (rule refl)

lemma guards_exact_position:
  assumes "k < length es"
    and "k \<noteq> a \<Longrightarrow> k \<noteq> b \<Longrightarrow> position (es ! k) = p"
    and "k = a \<Longrightarrow> oldA = p" and "k = b \<Longrightarrow> oldB = p"
  shows "position (revertPosition b oldB (revertPosition a oldA es) ! k) =
           (if hasNaN (position (es ! k)) then p else position (es ! k))"
  using assms by (auto simp add: revertPosition_fields)

lemma guards_exact_velocity:
  assumes "k < length es"
    and "k \<noteq> a \<Longrightarrow> k \<noteq> b \<Longrightarrow> velocity (es ! k) = p"
    and "k = a \<Longrightarrow> oldA = p" and "k = b \<Longrightarrow> oldB = p"
  shows "velocity (revertVelocity b oldB (revertVelocity a oldA es) ! k) =
           (if hasNaN (velocity (es ! k)) then p else velocity (es ! k))"
  using assms by (auto simp add: revertVelocity_fields)

lemma afterCorrectionJS_fields:
  "length (afterCorrectionJS c es) = length es"
  "velocity (afterCorrectionJS c es ! k) = velocity (es ! k)"
  "k \<noteq> ref_a c \<Longrightarrow> k \<noteq> ref_b c \<Longrightarrow>
     position (afterCorrectionJS c es ! k) = position (es ! k)"
  by (simp_all add: afterCorrectionJS_def Let_def applyCorrection_fields wakeBoth_fields)

lemma afterPositionGuardsJS_fields:
  "length (afterPositionGuardsJS c es) = length es"
  "velocity (afterPositionGuardsJS c es ! k) = velocity (es ! k)"
  by (simp_all add: afterPositionGuardsJS_def Let_def revertPosition_fields
        afterCorrectionJS_fields)

lemma afterPositionGuardsJS_position:
  assumes "k < length es"
  shows "position (afterPositionGuardsJS c es ! k) =
           (if hasNaN (position (afterCorrectionJS c es ! k)) then position (es ! k)
            else position (afterCorrectionJS c es ! k))"
  unfolding afterPositionGuardsJS_def Let_def
proof (rule guards_exact_position)
  show "k < length (afterCorrectionJS c es)" using assms by (simp add: afterCorrectionJS_fields)
  show "position (afterCorrectionJS c es ! k) = position (es ! k)"
    if "k \<noteq> ref_a c" "k \<noteq> ref_b c"
    using that by (simp add: afterCorrectionJS_fields)
  show "position (wakeBoth c es ! ref_a c) = position (es ! k)" if "k = ref_a c"
    using that by (simp add: wakeBoth_fields)
  show "position (wakeBoth c es ! ref_b c) = position (es ! k)" if "k = ref_b c"
    using that by (simp add: wakeBoth_fields)
qed

lemma afterImpulseJS_fields:
  "length (afterImpulseJS c es) = length es"
  "position (afterImpulseJS c es ! k) = position (afterPositionGuardsJS c es ! k)"
  "k \<noteq> ref_a c \<Longrightarrow> k \<noteq> ref_b c \<Longrightarrow>
     velocity (afterImpulseJS c es ! k) = velocity (es ! k)"
  by (simp_all add: afterImpulseJS_def Let_def applyImpulse_fields applyImpulse_other
        afterPositionGuardsJS_fields)

lemma afterVelocityGuardsJS_fields:
  "length (afterVelocityGuardsJS c es) = length es"
  "position (afterVelocityGuardsJS c es ! k) = position (afterPositionGuardsJS c es ! k)"
  by (simp_all add: afterVelocityGuardsJS_def Let_def revertVelocity_fields
        afterImpulseJS_fields)

lemma afterVelocityGuardsJS_velocity:
  assumes "k < length es"
  shows "velocity (afterVelocityGuardsJS c es ! k) =
           (if hasNaN (velocity (afterImpulseJS c es ! k)) then velocity (es ! k)
            else velocity (afterImpulseJS c es ! k))"
  unfolding afterVelocityGuardsJS_def Let_def
proof (rule guards_exact_velocity)
  show "k < length (afterImpulseJS c es)" using assms by (simp add: afterImpulseJS_fields)
  show "velocity (afterImpulseJS c es ! k) = velocity (es ! k)"
    if "k \<noteq> ref_a c" "k \<noteq> ref_b c"
    using that by (simp add: afterImpulseJS_fields)
  show "velocity (afterPositionGuardsJS c es ! ref_a c) = velocity (es ! k)" if "k = ref_a c"
    using that by (simp add: afterPositionGuardsJS_fields)
  show "velocity (afterPositionGuardsJS c es ! ref_b c) = velocity (es ! k)" if "k = ref_b c"
    using that by (simp add: afterPositionGuardsJS_fields)
qed

text \<open>
  Claim C7, as the code has it. When a contact is resolved, a position that the
  positional correction leaves with a \<open>NaN\<close> component is set back to the position
  the entity had before the contact, and a position without one is kept; a velocity
  that the impulse leaves with a \<open>NaN\<close> component is set back to the velocity the
  entity had before the contact, and a velocity without one is kept. A contact that
  the solver skips changes neither.
\<close>

theorem resolveCollisionJS_guards:
  assumes "k < length es"
  shows "position (resolveCollisionJS c es ! k) =
           (if totalInvMassJS c es = Fin 0 then position (es ! k)
            else if hasNaN (position (afterCorrectionJS c es ! k)) then position (es ! k)
            else position (afterCorrectionJS c es ! k)) \<and>
         velocity (resolveCollisionJS c es ! k) =
           (if totalInvMassJS c es = Fin 0 then velocity (es ! k)
            else if jsLess 0 (velAlongNormalJS c es) then velocity (es ! k)
            else if hasNaN (velocity (afterImpulseJS c es ! k)) then velocity (es ! k)
            else velocity (afterImpulseJS c es ! k))"
  by (simp add: resolveCollisionJS_stages notifyJS_fields wakeBoth_fields
        afterVelocityGuardsJS_fields afterPositionGuardsJS_fields
        afterPositionGuardsJS_position [OF assms] afterVelocityGuardsJS_velocity [OF assms])

theorem resolveCollisionJS_guards_witness:
  "0 < length sideBySide \<and>
   totalInvMassJS infiniteAlongX sideBySide = Fin 2 \<and>
   map position (afterCorrectionJS infiniteAlongX sideBySide)
     = [Vec2 NInf NaN, Vec2 PInf NaN] \<and>
   map position sideBySide = [Vec2 0 0, Vec2 1 0] \<and>
   position (resolveCollisionJS infiniteAlongX sideBySide ! 0) = Vec2 0 0 \<and>
   map position (resolveCollisionJS infiniteAlongX sideBySide) = [Vec2 0 0, Vec2 1 0] \<and>
   map position (afterCorrectionJS finiteAlongX sideBySide)
     = [Vec2 (Fin (- 0.4)) 0, Vec2 (Fin 1.4) 0] \<and>
   position (resolveCollisionJS finiteAlongX sideBySide ! 0) = Vec2 (Fin (- 0.4)) 0 \<and>
   map position (resolveCollisionJS finiteAlongX sideBySide)
     = [Vec2 (Fin (- 0.4)) 0, Vec2 (Fin 1.4) 0]"
proof -
  have h: "0 < length sideBySide" by (simp add: sideBySide_def)
  have t: "totalInvMassJS infiniteAlongX sideBySide = Fin 2"
          "totalInvMassJS finiteAlongX sideBySide = Fin 2"
    by (simp_all add: totalInvMassJS_def sideBySide_def infiniteAlongX_def finiteAlongX_def
          jsnum_eval)
  have a: "map position (afterCorrectionJS infiniteAlongX sideBySide)
             = [Vec2 NInf NaN, Vec2 PInf NaN]"
    by (simp add: afterCorrectionJS_def sideBySide_def infiniteAlongX_def jsnum_eval)
  have b: "map position (afterCorrectionJS finiteAlongX sideBySide)
             = [Vec2 (Fin (- 0.4)) 0, Vec2 (Fin 1.4) 0]"
    by (simp add: afterCorrectionJS_def sideBySide_def finiteAlongX_def jsnum_eval)
  have s: "map position sideBySide = [Vec2 0 0, Vec2 1 0]"
    by (simp add: sideBySide_def jsnum_eval)
  have a0: "position (afterCorrectionJS infiniteAlongX sideBySide ! 0) = Vec2 NInf NaN"
    by (simp add: afterCorrectionJS_def sideBySide_def infiniteAlongX_def jsnum_eval)
  have b0: "position (afterCorrectionJS finiteAlongX sideBySide ! 0) = Vec2 (Fin (- 0.4)) 0"
    by (simp add: afterCorrectionJS_def sideBySide_def finiteAlongX_def jsnum_eval)
  have r1: "position (resolveCollisionJS infiniteAlongX sideBySide ! 0) = Vec2 0 0"
    using resolveCollisionJS_guards [OF h, of infiniteAlongX] t a0
    by (simp add: hasNaN_def isNaN_def sideBySide_def newEntityJS_def zero_jsnum_def)
  have r2: "position (resolveCollisionJS finiteAlongX sideBySide ! 0) = Vec2 (Fin (- 0.4)) 0"
    using resolveCollisionJS_guards [OF h, of finiteAlongX] t b0
    by (simp add: hasNaN_def isNaN_def zero_jsnum_def)
  have m1: "map position (resolveCollisionJS infiniteAlongX sideBySide) = [Vec2 0 0, Vec2 1 0]"
    by (simp add: resolveCollisionJS_def sideBySide_def infiniteAlongX_def jsnum_eval
          RESTITUTION_def)
  have m2: "map position (resolveCollisionJS finiteAlongX sideBySide)
              = [Vec2 (Fin (- 0.4)) 0, Vec2 (Fin 1.4) 0]"
    by (simp add: resolveCollisionJS_def sideBySide_def finiteAlongX_def jsnum_eval
          RESTITUTION_def)
  show ?thesis using h t a b s r1 r2 m1 m2 by simp
qed

text \<open>
  The claim fails for integration and for infinities. \<open>integrate\<close> has no revert: an
  entity at \<open>(0, 0)\<close> with an infinite or \<open>NaN\<close> velocity component has a non-finite
  position afterwards. In the solver an infinite penetration along \<open>(0.6, 0.8)\<close> moves
  two entities with finite positions to infinite ones, which \<open>isNaN\<close> does not see.
\<close>

theorem non_finite_not_reverted:
  "map position (integrate (Fin TIME_STEP) [(newEntityJS 0 0)\<lparr>velocity := Vec2 PInf 0\<rparr>])
     = [Vec2 PInf 0] \<and>
   map position (integrate (Fin TIME_STEP) [(newEntityJS 0 0)\<lparr>velocity := Vec2 NaN 0\<rparr>])
     = [Vec2 NaN 0] \<and>
   position (newEntityJS 0 0) = Vec2 0 0 \<and>
   map position sideBySide = [Vec2 0 0, Vec2 1 0] \<and>
   map position (resolveCollisionJS infiniteOblique sideBySide)
     = [Vec2 NInf NInf, Vec2 PInf PInf]"
  by (simp add: integrate_def integrate1_def resolveCollisionJS_def sideBySide_def
        infiniteOblique_def jsnum_eval RESTITUTION_def TIME_STEP_def)

end
